theory Spec2Isabelle
  imports Complex_Main "HOL-Library.Sublist"
begin

section \<open>Data model of the printer service\<close>

text \<open>
  The development embeds \<^verbatim>\<open>PrinterService\<close> (the NestJS service that drives a
  remote Chrome through puppeteer): \<^verbatim>\<open>printResume\<close>, \<^verbatim>\<open>printPreview\<close>,
  \<^verbatim>\<open>generateResume\<close> and \<^verbatim>\<open>generatePreview\<close>.

  A thrown JavaScript value is an \<open>error\<close>. \<open>Error m\<close> is a plain \<^verbatim>\<open>Error\<close> with
  message \<open>m\<close>; \<open>InternalServerError m d\<close> is the NestJS
  \<^verbatim>\<open>InternalServerErrorException(m, d)\<close>, whose \<^verbatim>\<open>message\<close> is its first argument
  and whose description is the second.
\<close>

datatype error = Error string | InternalServerError string string

fun message :: "error \<Rightarrow> string" where
  "message (Error m) = m"
| "message (InternalServerError m d) = m"

text \<open>
  The members of the \<^verbatim>\<open>ErrorMessage\<close> enumeration that the service uses. The
  enumeration lives in the utils package; only the identity of its two members
  matters here, and they are taken to be their own names.
\<close>

definition InvalidBrowserConnection :: string where
  "InvalidBrowserConnection = ''InvalidBrowserConnection''"

definition ResumePrinterError :: string where
  "ResumePrinterError = ''ResumePrinterError''"

datatype format = A4 | Letter

text \<open>
  \<^verbatim>\<open>resume.data.metadata.layout\<close> is a list of pages, each page a list of columns,
  each column a list of section keys. \<open>resume_data\<close> is \<^verbatim>\<open>resume.data\<close>: the
  fields of \<^verbatim>\<open>metadata\<close> the service reads, and \<open>sections\<close> for everything else,
  which the service only passes on to the browser.
\<close>

type_synonym column = "string list"
type_synonym layout_page = "column list"
type_synonym layout = "layout_page list"

record resume_data =
  sections :: string
  layout :: layout
  css_visible :: bool
  css_value :: string

record resume =
  rid :: string
  userId :: string
  title :: string
  data :: resume_data

section \<open>Merging the pages of a layout\<close>

text \<open>
  \<^verbatim>\<open>[...acc[0], ...page[0]]\<close>: reading a column that a page does not have gives
  \<^verbatim>\<open>undefined\<close>, and spreading \<^verbatim>\<open>undefined\<close> into an array literal throws a
  \<^verbatim>\<open>TypeError\<close>.
\<close>

definition spread_column :: "layout_page \<Rightarrow> nat \<Rightarrow> error + column" where
  "spread_column page i =
     (if i < length page then Inr (page ! i)
      else Inl (Error ''TypeError: undefined is not iterable''))"

text \<open>The callback of the \<^verbatim>\<open>reduce\<close>: the accumulator always has two columns.\<close>

definition merge_step :: "layout_page \<Rightarrow> layout_page \<Rightarrow> error + layout_page" where
  "merge_step acc page =
     (case spread_column page 0 of
        Inl e \<Rightarrow> Inl e
      | Inr c0 \<Rightarrow>
          (case spread_column page 1 of
             Inl e \<Rightarrow> Inl e
           | Inr c1 \<Rightarrow> Inr [acc ! 0 @ c0, acc ! 1 @ c1]))"

fun reduce_merge :: "layout \<Rightarrow> layout_page \<Rightarrow> error + layout_page" where
  "reduce_merge [] acc = Inr acc"
| "reduce_merge (page # pages) acc =
     (case merge_step acc page of
        Inl e \<Rightarrow> Inl e
      | Inr acc' \<Rightarrow> reduce_merge pages acc')"

text \<open>\<^verbatim>\<open>originalLayout.reduce(..., [[], []])\<close>\<close>

definition mergedPage :: "layout \<Rightarrow> error + layout_page" where
  "mergedPage originalLayout = reduce_merge originalLayout [[], []]"

section \<open>Loopback rewriting of URLs\<close>

text \<open>
  \<^verbatim>\<open>/https?:\/\/localhost(:\d+)?/.test(url)\<close>: the pattern is not anchored, so it
  matches when \<^verbatim>\<open>http://localhost\<close> or \<^verbatim>\<open>https://localhost\<close> occurs anywhere in
  the string; the optional port never decides the match.
\<close>

fun loopback_test :: "string \<Rightarrow> bool" where
  "loopback_test [] = False"
| "loopback_test (c # cs) =
     (prefix ''http://localhost'' (c # cs) \<or> prefix ''https://localhost'' (c # cs)
      \<or> loopback_test cs)"

definition is_digit :: "char \<Rightarrow> bool" where
  "is_digit c = (c \<in> set ''0123456789'')"

text \<open>
  The group \<^verbatim>\<open>(:\d+)?\<close> at the start of a string: the port it captures (the
  empty string when the group does not take part, as \<^verbatim>\<open>port ?? ""\<close> makes it) and
  the rest of the string. The quantifiers are greedy.
\<close>

fun match_port :: "string \<Rightarrow> string \<times> string" where
  "match_port [] = ([], [])"
| "match_port (c # cs) =
     (if c = CHR '':'' \<and> takeWhile is_digit cs \<noteq> []
      then (c # takeWhile is_digit cs, dropWhile is_digit cs)
      else ([], c # cs))"

text \<open>
  \<^verbatim>\<open>s.replace(/localhost(:\d+)?/, (_match, port) => `host.docker.internal${port ?? ""}`)\<close>:
  the first match from the left is replaced, the string is unchanged when there is none.
\<close>

fun replace_localhost :: "string \<Rightarrow> string" where
  "replace_localhost [] = []"
| "replace_localhost (c # cs) =
     (if prefix ''localhost'' (c # cs)
      then (case match_port (drop (length ''localhost'') (c # cs)) of
              (port, rest) \<Rightarrow> ''host.docker.internal'' @ port @ rest)
      else c # replace_localhost cs)"

text \<open>
  The condition of both \<^verbatim>\<open>generateResume\<close> and \<^verbatim>\<open>generatePreview\<close>:
  \<^verbatim>\<open>[publicUrl, storageUrl].some((url) => /.../.test(url))\<close>.
\<close>

definition needs_rewrite :: "string \<Rightarrow> string \<Rightarrow> bool" where
  "needs_rewrite publicUrl storageUrl = list_ex loopback_test [publicUrl, storageUrl]"

text \<open>The value of \<^verbatim>\<open>url\<close> after the \<^verbatim>\<open>if\<close>: the origin the tab navigates to.\<close>

definition resolve_url :: "string \<Rightarrow> string \<Rightarrow> string" where
  "resolve_url publicUrl storageUrl =
     (if needs_rewrite publicUrl storageUrl then replace_localhost publicUrl else publicUrl)"



section \<open>Assembling the page buffers\<close>

text \<open>
  A page of a PDF document is opaque here. A \<open>buffer\<close> is a value the service holds
  as a \<^verbatim>\<open>Buffer\<close>; the three kinds are introduced with the calls that produce
  them. The assembler is the loop over \<^verbatim>\<open>pagesBuffer\<close> that follows
  \<^verbatim>\<open>PDFDocument.create()\<close>. It is stated over the parser: \<open>load b\<close> is the
  list of pages of the document that \<^verbatim>\<open>PDFDocument.load(b)\<close> parses, \<open>None\<close> when
  the call throws.
\<close>

type_synonym pdf_page = string

text \<open>\<^verbatim>\<open>page.getPageIndices()\<close>\<close>

definition getPageIndices :: "pdf_page list \<Rightarrow> nat list" where
  "getPageIndices doc = [0..<length doc]"

text \<open>
  \<^verbatim>\<open>pdf.copyPages(page, indices)\<close>: the pages of the loaded document at the given
  indices, in the order of the indices.
\<close>

definition copyPages :: "pdf_page list \<Rightarrow> nat list \<Rightarrow> pdf_page list" where
  "copyPages doc indices = map (\<lambda>i. doc ! i) indices"

text \<open>\<^verbatim>\<open>copiedPages.forEach((page) => pdf.addPage(page))\<close>\<close>

fun addPages :: "pdf_page list \<Rightarrow> pdf_page list \<Rightarrow> pdf_page list" where
  "addPages pdf [] = pdf"
| "addPages pdf (p # copiedPages) = addPages (pdf @ [p]) copiedPages"

fun merge_buffers ::
  "('b \<Rightarrow> pdf_page list option) \<Rightarrow> 'b list \<Rightarrow> pdf_page list \<Rightarrow> error + pdf_page list" where
  "merge_buffers load [] pdf = Inr pdf"
| "merge_buffers load (element # pagesBuffer) pdf =
     (case load element of
        None \<Rightarrow> Inl (Error ''Failed to parse PDF document'')
      | Some doc \<Rightarrow>
          merge_buffers load pagesBuffer (addPages pdf (copyPages doc (getPageIndices doc))))"

text \<open>The document is created empty.\<close>

definition assemble :: "('b \<Rightarrow> pdf_page list option) \<Rightarrow> 'b list \<Rightarrow> error + pdf_page list" where
  "assemble load pagesBuffer = merge_buffers load pagesBuffer []"

section \<open>The retry orchestrator\<close>

text \<open>
  \<^verbatim>\<open>retry\<close> is the function of the \<^verbatim>\<open>async-retry\<close> package, which the service
  imports; it is not code of the repository. It is embedded after the package's
  contract: the option \<^verbatim>\<open>retries\<close> is the maximum number of times the operation
  is retried (the package it builds on documents that 1 means: do it once, then
  retry it once), so an operation that keeps failing is called \<^verbatim>\<open>retries + 1\<close>
  times;
  after a failed call that will be retried, \<^verbatim>\<open>onRetry\<close> is called with the error
  and the number of the call that failed, counted from 1; when no retry is left
  the promise is rejected with the main error of the operation.

  The main error is the error whose message occurred most often, the latest one
  among equals.
\<close>

fun main_error_scan ::
  "error list \<Rightarrow> (string \<Rightarrow> nat) \<Rightarrow> error option \<Rightarrow> nat \<Rightarrow> error option" where
  "main_error_scan [] counts mainError mainErrorCount = mainError"
| "main_error_scan (e # errors) counts mainError mainErrorCount =
     (let count = counts (message e) + 1;
          counts' = counts(message e := count)
      in if count \<ge> mainErrorCount
         then main_error_scan errors counts' (Some e) count
         else main_error_scan errors counts' mainError mainErrorCount)"

definition mainError :: "error list \<Rightarrow> error option" where
  "mainError errors = main_error_scan errors (\<lambda>_. 0) None 0"

record retry_options =
  retries :: nat
  randomize :: bool

text \<open>
  The waiting times. When the operation is created, one waiting time is computed
  for every retry allowed, and the list is sorted in ascending order; every retry
  takes the first waiting time left and starts the next call after a timer of that
  many milliseconds.

  What the orchestrator takes from its environment is kept in a state of its own:
  the numbers that \<^verbatim>\<open>Math.random()\<close> returns (\<open>rand t i\<close> is the \<open>i\<close>-th of them, a
  number from 0 up to but not including 1), how many of them have been drawn, and
  the delays of the timers that the orchestrator has waited for, in order. The
  numbers are rationals here, where the code has floating-point numbers.
\<close>

record timers =
  rand :: "nat \<Rightarrow> rat"
  drawn :: nat
  slept :: "int list"

definition Math_random :: "timers \<Rightarrow> rat \<times> timers" where
  "Math_random t = (rand t (drawn t), t\<lparr>drawn := Suc (drawn t)\<rparr>)"

text \<open>
  The options that the service does not pass have their defaults: \<^verbatim>\<open>factor\<close> is
  2, \<^verbatim>\<open>minTimeout\<close> is 1000 and \<^verbatim>\<open>maxTimeout\<close> is \<^verbatim>\<open>Infinity\<close>, so that
  \<^verbatim>\<open>Math.min(timeout, opts.maxTimeout)\<close> is \<^verbatim>\<open>timeout\<close>.
\<close>

definition factor :: nat where
  "factor = 2"

definition minTimeout :: nat where
  "minTimeout = 1000"

text \<open>
  \<^verbatim>\<open>var random = (opts.randomize) ? (Math.random() + 1) : 1;\<close>
  \<^verbatim>\<open>var timeout = Math.round(random * Math.max(opts.minTimeout, 1) * Math.pow(opts.factor, attempt));\<close>
\<close>

definition createTimeout :: "nat \<Rightarrow> retry_options \<Rightarrow> timers \<Rightarrow> int \<times> timers" where
  "createTimeout attempt opts t =
     (case (if randomize opts then (case Math_random t of (r, t') \<Rightarrow> (r + 1, t')) else (1, t)) of
        (random, t') \<Rightarrow>
          (round (random * of_nat (max minTimeout 1) * of_nat factor ^ attempt), t'))"

text \<open>
  \<^verbatim>\<open>for (var i = 0; i < opts.retries; i++) timeouts.push(this.createTimeout(i, opts))\<close>,
  entered at \<open>i\<close>, and then the numerical sort.
\<close>

function timeouts_loop :: "retry_options \<Rightarrow> nat \<Rightarrow> int list \<Rightarrow> timers \<Rightarrow> int list \<times> timers" where
  "timeouts_loop opts i timeouts t =
     (if i < retries opts
      then (case createTimeout i opts t of
              (timeout, t') \<Rightarrow> timeouts_loop opts (Suc i) (timeouts @ [timeout]) t')
      else (timeouts, t))"
  by pat_completeness auto
termination
  by (relation "measure (\<lambda>(opts, i, timeouts, t). retries opts - i)") auto

declare timeouts_loop.simps [simp del]

definition timeouts :: "retry_options \<Rightarrow> timers \<Rightarrow> int list \<times> timers" where
  "timeouts opts t = (case timeouts_loop opts 0 [] t of (ts, t') \<Rightarrow> (sort ts, t'))"



section \<open>The remote browser\<close>

text \<open>
  Modelled from the spec: the artboard front end, which is code of the repository
  outside the files at hand. Once the resume is in the tab's local storage and the
  page is loaded, it renders one container tagged \<^verbatim>\<open>data-page="n"\<close> for each page
  of the layout, in ascending order from 1. \<open>Rendered l\<close> is the body of that
  document for the layout \<open>l\<close>; \<open>PageOnly b k\<close> is a body that holds nothing but a
  clone of the container \<open>k\<close> of the body \<open>b\<close>; \<open>Blank\<close> is the body of a tab that
  renders no resume.
\<close>

datatype body_html = Blank | Rendered layout | PageOnly body_html nat

text \<open>Whether the selector \<^verbatim>\<open>[data-page="k"]\<close> finds an element in the body.\<close>

fun has_page :: "body_html \<Rightarrow> nat \<Rightarrow> bool" where
  "has_page Blank k = False"
| "has_page (Rendered l) k = (1 \<le> k \<and> k \<le> length l)"
| "has_page (PageOnly b j) k = (k = j)"

text \<open>
  The options of \<^verbatim>\<open>page.pdf\<close>, which always include \<^verbatim>\<open>printBackground: true\<close>:
  a paper format, or a width and a height. Lengths in CSS pixels are taken as
  natural numbers.
\<close>

datatype pdf_options = PaperFormat format | PaperSize nat nat

text \<open>
  What the engine returns is not computed here: \<open>PdfOf b css opts\<close> stands for the
  bytes \<^verbatim>\<open>page.pdf(opts)\<close> returns for a document with body \<open>b\<close> and the style
  elements \<open>css\<close> in its head, \<open>JpegOf b css w h\<close> for the bytes
  \<^verbatim>\<open>page.screenshot\<close> returns at the viewport \<open>w\<close> by \<open>h\<close>, and \<open>SavedPdf pages\<close>
  for the bytes \<^verbatim>\<open>pdf.save()\<close> returns for the assembled document.
\<close>

datatype buffer =
    PdfOf body_html "string list" pdf_options
  | JpegOf body_html "string list" nat nat
  | SavedPdf "pdf_page list"

text \<open>
  The calls that leave the process: to the browser, and to the storage service.
\<close>

datatype call =
    Connect
  | NewPage
  | SetRequestInterception
  | Goto string
  | SetItem resume_data
  | Reload
  | WaitForSelector nat
  | AppendStyle string
  | AddStyleTag string
  | Pdf pdf_options
  | QuerySelector nat
  | ScrollWidth
  | IsolatePage
  | MeasureHeight
  | RestoreBody
  | EvaluateOnNewDocument resume_data
  | SetViewport nat nat
  | Screenshot
  | UploadObject string string buffer string
  | ClosePage
  | Disconnect

datatype log_entry =
    LogError error
  | LogRetryPrint string nat
  | LogRetryPreview string nat
  | LogPrinted nat
  | LogPreviewed

text \<open>
  The state outside the service. \<open>trace\<close> lists the calls made so far, oldest
  first, each with the message of its failure if it failed; \<open>faults n\<close> tells
  whether call number \<open>n\<close> (counted from 0) fails, and with which message. The
  document of the tab is \<open>body\<close> with the style elements \<open>styles\<close>; \<open>storage\<close> is
  the entry \<^verbatim>\<open>resume\<close> of the local storage, \<open>init_script\<close> the data a script
  registered with \<^verbatim>\<open>evaluateOnNewDocument\<close> stores on every navigation, \<open>viewport\<close>
  the size of the viewport, \<open>interceptor\<close> the storage URL of the installed request
  handler. The remaining fields are what the outside answers: the scroll width of
  a page container, the two heights the measuring script reads, the URL the
  storage service returns, and the pages a buffer parses to.
\<close>

record world =
  trace :: "(call \<times> string option) list"
  faults :: "nat \<Rightarrow> string option"
  logged :: "log_entry list"
  body :: body_html
  styles :: "string list"
  storage :: "resume_data option"
  init_script :: "resume_data option"
  viewport :: "nat \<times> nat"
  interceptor :: "string option"
  scroll_width :: "body_html \<Rightarrow> nat \<Rightarrow> nat"
  bounding_height :: "body_html \<Rightarrow> nat"
  scroll_height :: "body_html \<Rightarrow> nat"
  object_url :: "string \<Rightarrow> string \<Rightarrow> string \<Rightarrow> string"
  pdf_load :: "buffer \<Rightarrow> pdf_page list option"

text \<open>
  An asynchronous computation of the service: from a world to a value or a thrown
  error, and the world it leaves.
\<close>

type_synonym 'a io = "world \<Rightarrow> (error + 'a) \<times> world"

definition io_return :: "'a \<Rightarrow> 'a io" where
  "io_return a = (\<lambda>w. (Inr a, w))"

definition io_throw :: "error \<Rightarrow> 'a io" where
  "io_throw e = (\<lambda>w. (Inl e, w))"

definition io_bind :: "'a io \<Rightarrow> ('a \<Rightarrow> 'b io) \<Rightarrow> 'b io" where
  "io_bind m f = (\<lambda>w. case m w of (Inl e, w') \<Rightarrow> (Inl e, w') | (Inr a, w') \<Rightarrow> f a w')"

definition io_then :: "unit io \<Rightarrow> 'b io \<Rightarrow> 'b io" where
  "io_then m n = io_bind m (\<lambda>_. n)"

definition io_catch :: "'a io \<Rightarrow> (error \<Rightarrow> 'a io) \<Rightarrow> 'a io" where
  "io_catch m h = (\<lambda>w. case m w of (Inl e, w') \<Rightarrow> h e w' | (Inr a, w') \<Rightarrow> (Inr a, w'))"

definition io_when :: "bool \<Rightarrow> unit io \<Rightarrow> unit io" where
  "io_when b m = (if b then m else io_return ())"

text \<open>
  \<^verbatim>\<open>Promise.all([m, n])\<close>: both calls are made; the result is the error of one
  of them if one fails (of the first here, when both do).
\<close>

definition io_all :: "unit io \<Rightarrow> unit io \<Rightarrow> unit io" where
  "io_all m n =
     (\<lambda>w. case m w of
             (Inl e, w') \<Rightarrow> (Inl e, snd (n w'))
           | (Inr _, w') \<Rightarrow> n w')"

text \<open>
  A call is recorded. It fails when \<open>faults\<close> says so, or when the call itself
  cannot succeed in the present world (\<open>guard\<close>); \<open>effect\<close> is what a call that
  did not fail does to the world.
\<close>

definition outcome :: "(world \<Rightarrow> string option) \<Rightarrow> world \<Rightarrow> string option" where
  "outcome guard w =
     (case faults w (length (trace w)) of Some m \<Rightarrow> Some m | None \<Rightarrow> guard w)"

definition remote :: "call \<Rightarrow> (world \<Rightarrow> string option) \<Rightarrow> (world \<Rightarrow> world) \<Rightarrow> unit io" where
  "remote c guard effect =
     (\<lambda>w. case outcome guard w of
             Some m \<Rightarrow> (Inl (Error m), w\<lparr>trace := trace w @ [(c, Some m)]\<rparr>)
           | None \<Rightarrow> (Inr (), effect (w\<lparr>trace := trace w @ [(c, None)]\<rparr>)))"

definition no_guard :: "world \<Rightarrow> string option" where
  "no_guard w = None"

definition read_world :: "(world \<Rightarrow> 'a) \<Rightarrow> 'a io" where
  "read_world f = (\<lambda>w. (Inr (f w), w))"

section \<open>The calls of a session\<close>

text \<open>
  The origins the service reads from its configuration with \<^verbatim>\<open>getOrThrow\<close>; both
  are taken to be configured.
\<close>

record service =
  publicUrl :: string
  storageUrl :: string

text \<open>\<^verbatim>\<open>getBrowser\<close>: a failed connection is thrown as an exception of the service.\<close>

definition getBrowser :: "unit io" where
  "getBrowser =
     io_catch (remote Connect no_guard id)
       (\<lambda>error. io_throw (InternalServerError InvalidBrowserConnection (message error)))"

text \<open>\<^verbatim>\<open>browser.newPage()\<close>: a fresh tab.\<close>

definition newPage :: "unit io" where
  "newPage =
     remote NewPage no_guard
       (\<lambda>w. w\<lparr>body := Blank, styles := [], init_script := None, interceptor := None\<rparr>)"

text \<open>
  The lines from \<^verbatim>\<open>let url = publicUrl\<close> to the end of the \<^verbatim>\<open>if\<close>, the same in
  \<^verbatim>\<open>generateResume\<close> and \<^verbatim>\<open>generatePreview\<close>: the value of \<^verbatim>\<open>url\<close>, with the
  request handler installed when the origins are rewritten.
\<close>

definition route_localhost :: "service \<Rightarrow> string io" where
  "route_localhost svc =
     (let url = resolve_url (publicUrl svc) (storageUrl svc)
      in if needs_rewrite (publicUrl svc) (storageUrl svc)
         then io_then (remote SetRequestInterception no_guard id)
                (io_then (\<lambda>w. (Inr (), w\<lparr>interceptor := Some (storageUrl svc)\<rparr>))
                   (io_return url))
         else io_return url)"


text \<open>
  A navigation loads a new document: the init script stores its data, and the
  front end renders what the local storage holds.
\<close>

definition navigate :: "world \<Rightarrow> world" where
  "navigate w =
     (let st = (case init_script w of Some d \<Rightarrow> Some d | None \<Rightarrow> storage w)
      in w\<lparr>storage := st,
            body := (case st of None \<Rightarrow> Blank | Some d \<Rightarrow> Rendered (layout d)),
            styles := []\<rparr>)"

definition goto :: "string \<Rightarrow> unit io" where
  "goto url = remote (Goto url) no_guard navigate"

definition reload :: "unit io" where
  "reload = remote Reload no_guard navigate"

text \<open>\<^verbatim>\<open>page.waitForSelector('[data-page="k"]', { timeout: 15_000 })\<close>\<close>

definition waitForSelector :: "nat \<Rightarrow> unit io" where
  "waitForSelector k =
     remote (WaitForSelector k)
       (\<lambda>w. if has_page (body w) k then None
            else Some ''TimeoutError: Waiting for selector failed: 15000ms exceeded'')
       id"

text \<open>
  \<^verbatim>\<open>page.evaluate((data) => window.localStorage.setItem("resume", ...), resume.data)\<close>
\<close>

definition setItem :: "resume_data \<Rightarrow> unit io" where
  "setItem d = remote (SetItem d) no_guard (\<lambda>w. w\<lparr>storage := Some d\<rparr>)"

text \<open>The custom CSS of the resume, appended to the head when it is visible.\<close>

definition inject_css :: "resume \<Rightarrow> unit io" where
  "inject_css resume =
     io_when (css_visible (data resume))
       (remote (AppendStyle (css_value (data resume))) no_guard
          (\<lambda>w. w\<lparr>styles := styles w @ [css_value (data resume)]\<rparr>))"

text \<open>
  The style sheet of the printable branch, its white space normalised: the last
  two rules force a page break after every page container but the last.
\<close>

definition print_css :: string where
  "print_css =
     ''[data-page] > div { transform: scale(0.95); transform-origin: center center; width: 100%; } ''
     @ ''html, body, #root { overflow: visible !important; height: auto !important; } ''
     @ ''[data-page] { break-after: page; page-break-after: always; } ''
     @ ''[data-page]:last-child { break-after: auto; page-break-after: auto; }''"

definition addStyleTag :: "string \<Rightarrow> unit io" where
  "addStyleTag content = remote (AddStyleTag content) no_guard (\<lambda>w. w\<lparr>styles := styles w @ [content]\<rparr>)"

text \<open>\<^verbatim>\<open>Buffer.from(await page.pdf(opts))\<close>\<close>

definition page_pdf :: "pdf_options \<Rightarrow> buffer io" where
  "page_pdf opts =
     io_bind (remote (Pdf opts) no_guard id)
       (\<lambda>_. read_world (\<lambda>w. PdfOf (body w) (styles w) opts))"

text \<open>
  \<^verbatim>\<open>page.$('[data-page="index"]')\<close>: the handle of the element, which is the
  number of its page here, or \<^verbatim>\<open>null\<close>.
\<close>

definition query_page :: "nat \<Rightarrow> nat option io" where
  "query_page index =
     io_bind (remote (QuerySelector index) no_guard id)
       (\<lambda>_. read_world (\<lambda>w. if has_page (body w) index then Some index else None))"

text \<open>
  \<^verbatim>\<open>(await (await pageElement?.getProperty("scrollWidth"))?.jsonValue()) ?? 0\<close>:
  no call is made for \<^verbatim>\<open>null\<close>; reading the property and its value is recorded
  as one call.
\<close>

definition element_width :: "nat option \<Rightarrow> nat io" where
  "element_width pageElement =
     (case pageElement of
        None \<Rightarrow> io_return 0
      | Some k \<Rightarrow>
          io_bind (remote ScrollWidth no_guard id)
            (\<lambda>_. read_world (\<lambda>w. scroll_width w (body w) k)))"

text \<open>
  The script that replaces the body by a clone of the element and returns the
  old body. For \<^verbatim>\<open>null\<close> the script throws in the page, and the call fails.
\<close>

definition isolate_page :: "nat option \<Rightarrow> body_html io" where
  "isolate_page pageElement =
     io_bind (read_world body)
       (\<lambda>temporaryHtml.
          io_then
            (remote IsolatePage
               (\<lambda>w. case pageElement of
                       None \<Rightarrow> Some ''TypeError: Cannot read properties of null''
                     | Some k \<Rightarrow> None)
               (\<lambda>w. case pageElement of
                       None \<Rightarrow> w
                     | Some k \<Rightarrow> w\<lparr>body := PageOnly (body w) k\<rparr>))
            (io_return temporaryHtml))"

text \<open>
  The measuring script: the scroll height of the body when it has no element,
  else the larger of the bounding height of its first element and the scroll
  height.
\<close>

definition measure_height :: "nat io" where
  "measure_height =
     io_bind (remote MeasureHeight no_guard id)
       (\<lambda>_. read_world
               (\<lambda>w. if body w = Blank then scroll_height w (body w)
                    else max (bounding_height w (body w)) (scroll_height w (body w))))"

definition restore_body :: "body_html \<Rightarrow> unit io" where
  "restore_body temporaryHtml = remote RestoreBody no_guard (\<lambda>w. w\<lparr>body := temporaryHtml\<rparr>)"

text \<open>\<^verbatim>\<open>storageService.uploadObject(userId, type, buffer, filename)\<close>\<close>

definition uploadObject :: "string \<Rightarrow> string \<Rightarrow> buffer \<Rightarrow> string \<Rightarrow> string io" where
  "uploadObject uid type buf filename =
     io_bind (remote (UploadObject uid type buf filename) no_guard id)
       (\<lambda>_. read_world (\<lambda>w. object_url w uid type filename))"

definition close_page :: "unit io" where
  "close_page = remote ClosePage no_guard id"

definition disconnect :: "unit io" where
  "disconnect = remote Disconnect no_guard id"

section \<open>generateResume\<close>

text \<open>
  The block under \<^verbatim>\<open>if (!format)\<close>: without a format the layout of the resume is
  overwritten with its single merged page. The resume is an object the caller
  shares, so the functions below return it along with their result.
\<close>

definition merge_layout :: "resume \<Rightarrow> format option \<Rightarrow> error + resume" where
  "merge_layout resume format =
     (case format of
        Some f \<Rightarrow> Inr resume
      | None \<Rightarrow>
          (case mergedPage (layout (data resume)) of
             Inl e \<Rightarrow> Inl e
           | Inr m \<Rightarrow> Inr (resume\<lparr>data := (data resume)\<lparr>layout := [m]\<rparr>\<rparr>)))"

text \<open>
  From \<^verbatim>\<open>page.goto\<close> to the \<^verbatim>\<open>Promise.all\<close> of the reload and the wait for
  the first page.
\<close>

definition load_artboard :: "string \<Rightarrow> resume \<Rightarrow> unit io" where
  "load_artboard url resume =
     io_then (goto (url @ ''/artboard/preview''))
       (io_then (setItem (data resume))
          (io_all reload (waitForSelector 1)))"

text \<open>The printable branch: one call of \<^verbatim>\<open>page.pdf\<close> with the paper format.\<close>

definition capture_formatted :: "resume \<Rightarrow> format \<Rightarrow> buffer list \<Rightarrow> buffer list io" where
  "capture_formatted resume format pagesBuffer =
     io_then (inject_css resume)
       (io_then (addStyleTag print_css)
          (io_bind (page_pdf (PaperFormat format))
             (\<lambda>buffer. io_return (pagesBuffer @ [buffer]))))"

definition heightBuffer :: nat where
  "heightBuffer = 20"

text \<open>
  \<^verbatim>\<open>processPage(index)\<close>; the array \<^verbatim>\<open>pagesBuffer\<close> it pushes to is passed in and
  returned.
\<close>

definition processPage :: "resume \<Rightarrow> nat \<Rightarrow> buffer list \<Rightarrow> buffer list io" where
  "processPage resume index pagesBuffer =
     io_bind (query_page index) (\<lambda>pageElement.
     io_bind (element_width pageElement) (\<lambda>width.
     io_bind (isolate_page pageElement) (\<lambda>temporaryHtml.
     io_then (inject_css resume) (
     io_bind measure_height (\<lambda>bodyHeight.
     io_bind (page_pdf (PaperSize width (bodyHeight + heightBuffer))) (\<lambda>buffer.
     io_then (restore_body temporaryHtml)
       (io_return (pagesBuffer @ [buffer]))))))))"

text \<open>
  \<^verbatim>\<open>for (let index = 1; index <= numberPages; index++) await processPage(index)\<close>,
  entered at \<open>index\<close>.
\<close>

function process_pages :: "resume \<Rightarrow> nat \<Rightarrow> nat \<Rightarrow> buffer list \<Rightarrow> buffer list io" where
  "process_pages resume index numberPages pagesBuffer w =
     (if index \<le> numberPages
      then (case processPage resume index pagesBuffer w of
              (Inl e, w') \<Rightarrow> (Inl e, w')
            | (Inr pagesBuffer', w') \<Rightarrow>
                process_pages resume (Suc index) numberPages pagesBuffer' w')
      else (Inr pagesBuffer, w))"
  by pat_completeness auto
termination
  by (relation "measure (\<lambda>(resume, index, numberPages, pagesBuffer, w). Suc numberPages - index)") auto

declare process_pages.simps [simp del]

text \<open>The two branches under \<^verbatim>\<open>const pagesBuffer: Buffer[] = []\<close>.\<close>

definition capture :: "resume \<Rightarrow> format option \<Rightarrow> nat \<Rightarrow> buffer list io" where
  "capture resume format numberPages =
     (case format of
        Some f \<Rightarrow> capture_formatted resume f []
      | None \<Rightarrow> process_pages resume 1 numberPages [])"

text \<open>
  The body of the \<^verbatim>\<open>try\<close> down to the end of the two branches: the value of
  \<^verbatim>\<open>pagesBuffer\<close>, and the resume as the block has left it.
\<close>

definition render_pages ::
  "service \<Rightarrow> resume \<Rightarrow> format option \<Rightarrow> world \<Rightarrow> (error + buffer list) \<times> resume \<times> world" where
  "render_pages svc resume format w =
     (case io_then getBrowser (io_then newPage (route_localhost svc)) w of
        (Inl e, w1) \<Rightarrow> (Inl e, resume, w1)
      | (Inr url, w1) \<Rightarrow>
          (case merge_layout resume format of
             Inl e \<Rightarrow> (Inl e, resume, w1)
           | Inr resume1 \<Rightarrow>
               (let numberPages = length (layout (data resume1))
                in case io_then (load_artboard url resume1)
                          (capture resume1 format numberPages) w1 of
                     (r, w2) \<Rightarrow> (r, resume1, w2))))"

text \<open>
  The rest of the \<^verbatim>\<open>try\<close>: the buffers are merged into one document, which is
  saved and uploaded; then the tab is closed and the browser disconnected.
\<close>

definition publish :: "resume \<Rightarrow> buffer list \<Rightarrow> string io" where
  "publish resume pagesBuffer =
     io_bind (read_world pdf_load) (\<lambda>load.
       case assemble load pagesBuffer of
         Inl e \<Rightarrow> io_throw e
       | Inr pdf \<Rightarrow>
           io_bind (uploadObject (userId resume) ''resumes'' (SavedPdf pdf) (title resume))
             (\<lambda>resumeUrl. io_then close_page (io_then disconnect (io_return resumeUrl))))"

definition generateResume_try ::
  "service \<Rightarrow> resume \<Rightarrow> format option \<Rightarrow> world \<Rightarrow> (error + string) \<times> resume \<times> world" where
  "generateResume_try svc resume format w =
     (case render_pages svc resume format w of
        (Inl e, resume1, w1) \<Rightarrow> (Inl e, resume1, w1)
      | (Inr pagesBuffer, resume1, w1) \<Rightarrow>
          (case publish resume1 pagesBuffer w1 of (r, w2) \<Rightarrow> (r, resume1, w2)))"

text \<open>The \<^verbatim>\<open>catch\<close>: the error is logged and thrown again as an exception of the service.\<close>

definition generateResume ::
  "service \<Rightarrow> resume \<Rightarrow> format option \<Rightarrow> world \<Rightarrow> (error + string) \<times> resume \<times> world" where
  "generateResume svc resume format w =
     (case generateResume_try svc resume format w of
        (Inr resumeUrl, resume1, w1) \<Rightarrow> (Inr resumeUrl, resume1, w1)
      | (Inl error, resume1, w1) \<Rightarrow>
          (Inl (InternalServerError ResumePrinterError (message error)), resume1,
           w1\<lparr>logged := logged w1 @ [LogError error]\<rparr>))"

section \<open>generatePreview\<close>

definition screenshot :: "buffer io" where
  "screenshot =
     io_bind (remote Screenshot no_guard id)
       (\<lambda>_. read_world (\<lambda>w. JpegOf (body w) (styles w) (fst (viewport w)) (snd (viewport w))))"

definition generatePreview :: "service \<Rightarrow> resume \<Rightarrow> string io" where
  "generatePreview svc resume =
     io_then getBrowser (
     io_then newPage (
     io_bind (route_localhost svc) (\<lambda>url.
     io_then (remote (EvaluateOnNewDocument (data resume)) no_guard
                (\<lambda>w. w\<lparr>init_script := Some (data resume)\<rparr>)) (
     io_then (remote (SetViewport 794 1123) no_guard (\<lambda>w. w\<lparr>viewport := (794, 1123)\<rparr>)) (
     io_then (goto (url @ ''/artboard/preview'')) (
     io_bind screenshot (\<lambda>buffer.
     io_bind (uploadObject (userId resume) ''previews'' buffer (rid resume)) (\<lambda>previewUrl.
     io_then close_page (
     io_then disconnect (
       io_return previewUrl))))))))))"

section \<open>printResume and printPreview\<close>




section \<open>Notions used in the statements\<close>

text \<open>
  The calls a session opens with, the call that injects the custom CSS and the
  style element it leaves, each as the resume and the configuration decide.
\<close>

definition session_calls :: "service \<Rightarrow> (call \<times> string option) list" where
  "session_calls svc =
     [(Connect, None), (NewPage, None)]
     @ (if needs_rewrite (publicUrl svc) (storageUrl svc)
        then [(SetRequestInterception, None)] else [])"

definition css_calls :: "resume \<Rightarrow> (call \<times> string option) list" where
  "css_calls resume =
     (if css_visible (data resume) then [(AppendStyle (css_value (data resume)), None)] else [])"

definition css_styles :: "resume \<Rightarrow> string list" where
  "css_styles resume = (if css_visible (data resume) then [css_value (data resume)] else [])"






section \<open>Example inputs\<close>

text \<open>
  An engine whose exports parse to one physical page per page container of the
  exported body; a world in which no call fails; a service configured with
  loopback origins; and a resume with two pages of two columns each.
\<close>

definition engine_pages :: "buffer \<Rightarrow> pdf_page list option" where
  "engine_pages b =
     (case b of
        PdfOf (Rendered l) css opts \<Rightarrow> Some (map (\<lambda>p. concat (concat p)) l)
      | PdfOf (PageOnly (Rendered l) k) css opts \<Rightarrow> Some [concat (concat (l ! (k - 1)))]
      | _ \<Rightarrow> None)"

definition quiet_world :: world where
  "quiet_world =
     \<lparr>trace = [], faults = (\<lambda>_. None), logged = [], body = Blank, styles = [],
      storage = None, init_script = None, viewport = (800, 600), interceptor = None,
      scroll_width = (\<lambda>_ _. 794), bounding_height = (\<lambda>_. 1000),
      scroll_height = (\<lambda>_. 1100),
      object_url = (\<lambda>uid type name. ''https://files.example.com/'' @ uid @ ''/'' @ type @ ''/'' @ name),
      pdf_load = engine_pages\<rparr>"

text \<open>
  An engine that needs two sheets for every page container (the content of a page
  is taller than the paper), and the world with that engine.
\<close>

definition two_sheet_engine :: "buffer \<Rightarrow> pdf_page list option" where
  "two_sheet_engine b =
     (case b of
        PdfOf (Rendered l) css opts \<Rightarrow>
          Some (concat (map (\<lambda>p. [concat (concat p), ''(continued)'']) l))
      | PdfOf (PageOnly (Rendered l) k) css opts \<Rightarrow> Some [concat (concat (l ! (k - 1)))]
      | _ \<Rightarrow> None)"

definition tall_world :: world where
  "tall_world = quiet_world\<lparr>pdf_load := two_sheet_engine\<rparr>"

text \<open>The world in which call number \<open>n\<close> fails, and the one in which every call fails.\<close>

definition failing_at :: "nat \<Rightarrow> string \<Rightarrow> world" where
  "failing_at n m = quiet_world\<lparr>faults := (\<lambda>k. if k = n then Some m else None)\<rparr>"


definition local_service :: service where
  "local_service =
     \<lparr>publicUrl = ''http://localhost:3000'', storageUrl = ''http://localhost:3001/api''\<rparr>"

definition two_pages :: resume where
  "two_pages =
     \<lparr>rid = ''r1'', userId = ''u1'', title = ''cv'',
      data = \<lparr>sections = ''{}'',
              layout = [[[''A'', ''B''], [''E'']], [[''C'', ''D''], [''F'']]],
              css_visible = False, css_value = []\<rparr>\<rparr>"

text \<open>
  A tab that shows the two pages of the example resume, and the same tab when the
  fifth call from now (the export of the first page processed) fails.
\<close>

definition rendered_world :: world where
  "rendered_world = quiet_world\<lparr>body := Rendered (layout (data two_pages))\<rparr>"

definition export_fails :: world where
  "export_fails =
     rendered_world\<lparr>faults := (\<lambda>k. if k = 4 then Some ''Protocol error'' else None)\<rparr>"

text \<open>The same tab when it is the call after the export, the one that restores the body, that fails.\<close>

definition restore_fails :: world where
  "restore_fails =
     rendered_world\<lparr>faults := (\<lambda>k. if k = 5 then Some ''Target closed'' else None)\<rparr>"


section \<open>Properties of the assembler\<close>

lemma addPages_append: "addPages pdf copied = pdf @ copied"
  by (induction copied arbitrary: pdf) simp_all

lemma copyPages_all: "copyPages doc (getPageIndices doc) = doc"
  by (simp add: copyPages_def getPageIndices_def map_nth)

lemma merge_buffers_concat:
  "list_all2 (\<lambda>b doc. load b = Some doc) pagesBuffer docs \<Longrightarrow>
   merge_buffers load pagesBuffer pdf = Inr (pdf @ concat docs)"
  by (induction pagesBuffer docs arbitrary: pdf rule: list_all2_induct)
     (simp_all add: addPages_append copyPages_all)

lemma assemble_single:
  "assemble load [b] =
     (case load b of None \<Rightarrow> Inl (Error ''Failed to parse PDF document'') | Some doc \<Rightarrow> Inr doc)"
  by (simp add: assemble_def addPages_append copyPages_all split: option.splits)

text \<open>
  Claim C9. Given the buffers in order, each parsing to a document, the assembler
  returns the document whose pages are the pages of the first buffer, then those
  of the second, and so on, each page as it was parsed; the number of pages of the
  result is the sum of the numbers of pages of the buffers.
\<close>

theorem assemble_concat:
  assumes "list_all2 (\<lambda>b doc. load b = Some doc) pagesBuffer docs"
  shows "assemble load pagesBuffer = Inr (concat docs)
         \<and> length (concat docs) = sum_list (map length docs)"
  using merge_buffers_concat [OF assms, of "[]"] by (simp add: assemble_def length_concat)

theorem assemble_concat_witness:
  "assemble engine_pages
     [PdfOf (Rendered (layout (data two_pages))) [] (PaperFormat A4),
      PdfOf (PageOnly (Rendered (layout (data two_pages))) 2) [] (PaperSize 794 1120)]
   = Inr [''ABE'', ''CDF'', ''CDF'']
   \<and> length [''ABE'', ''CDF'', ''CDF''] = 2 + 1"
proof -
  have "list_all2 (\<lambda>b doc. engine_pages b = Some doc)
     [PdfOf (Rendered (layout (data two_pages))) [] (PaperFormat A4),
      PdfOf (PageOnly (Rendered (layout (data two_pages))) 2) [] (PaperSize 794 1120)]
     [[''ABE'', ''CDF''], [''CDF'']]"
    by (simp add: engine_pages_def two_pages_def)
  from assemble_concat [OF this] show ?thesis by simp
qed

section \<open>Properties of the page merge\<close>

lemma merge_step_length: "merge_step acc page = Inr acc' \<Longrightarrow> length acc' = 2"
  by (auto simp: merge_step_def split: sum.splits)

lemma reduce_merge_length:
  "reduce_merge l acc = Inr m \<Longrightarrow> length acc = 2 \<Longrightarrow> length m = 2"
  by (induction l arbitrary: acc) (auto split: sum.splits dest: merge_step_length)

lemma two_columns: "length m = 2 \<Longrightarrow> [m ! 0, m ! Suc 0] = m"
  by (cases m; cases "tl m") auto

lemma mergedPage_length: "mergedPage l = Inr m \<Longrightarrow> length m = 2"
  unfolding mergedPage_def by (erule reduce_merge_length) simp

lemma mergedPage_single: "length m = 2 \<Longrightarrow> mergedPage [m] = Inr m"
  by (simp add: mergedPage_def merge_step_def spread_column_def two_columns)

lemma reduce_merge_columns:
  "reduce_merge l acc = Inr m \<Longrightarrow> length acc = 2 \<Longrightarrow>
   m = [acc ! 0 @ concat (map (\<lambda>p. p ! 0) l), acc ! 1 @ concat (map (\<lambda>p. p ! 1) l)]"
proof (induction l arbitrary: acc)
  case Nil
  then show ?case by (simp add: two_columns)
next
  case (Cons page pages)
  from Cons.prems obtain acc' where step: "merge_step acc page = Inr acc'"
    and rest: "reduce_merge pages acc' = Inr m"
    by (auto split: sum.splits)
  from step have acc': "acc' = [acc ! 0 @ page ! 0, acc ! 1 @ page ! 1]"
    by (auto simp: merge_step_def spread_column_def split: if_splits)
  from Cons.IH [OF rest] acc' show ?case by simp
qed

lemma reduce_merge_total:
  "\<forall>p \<in> set l. 2 \<le> length p \<Longrightarrow> \<exists>m. reduce_merge l acc = Inr m"
  by (induction l arbitrary: acc) (auto simp: merge_step_def spread_column_def)

lemma mergedPage_columns:
  "mergedPage l = Inr m \<Longrightarrow> m = [concat (map (\<lambda>p. p ! 0) l), concat (map (\<lambda>p. p ! 1) l)]"
  unfolding mergedPage_def by (drule reduce_merge_columns) auto

text \<open>
  Claim C10. The merge is idempotent: merging the one-page layout that a merge
  produced gives the same page again. So a generation without a format that runs
  on a resume whose layout an earlier attempt has already collapsed computes the
  same merged page, stores the same one-page layout, and counts one page, as the
  first attempt did.
\<close>

theorem merge_idempotent:
  assumes "mergedPage (layout (data resume)) = Inr m"
  shows "mergedPage [m] = Inr m
         \<and> merge_layout resume None = Inr (resume\<lparr>data := (data resume)\<lparr>layout := [m]\<rparr>\<rparr>)
         \<and> merge_layout (resume\<lparr>data := (data resume)\<lparr>layout := [m]\<rparr>\<rparr>) None
             = Inr (resume\<lparr>data := (data resume)\<lparr>layout := [m]\<rparr>\<rparr>)
         \<and> length (layout (data (resume\<lparr>data := (data resume)\<lparr>layout := [m]\<rparr>\<rparr>))) = 1"
proof -
  have "mergedPage [m] = Inr m"
    using assms by (intro mergedPage_single mergedPage_length)
  with assms show ?thesis by (simp add: merge_layout_def)
qed

theorem merge_idempotent_witness:
  "mergedPage (layout (data two_pages)) = Inr [[''A'', ''B'', ''C'', ''D''], [''E'', ''F'']]
   \<and> mergedPage [[[''A'', ''B'', ''C'', ''D''], [''E'', ''F'']]]
       = Inr [[''A'', ''B'', ''C'', ''D''], [''E'', ''F'']]"
proof -
  have m: "mergedPage (layout (data two_pages)) = Inr [[''A'', ''B'', ''C'', ''D''], [''E'', ''F'']]"
    by (simp add: two_pages_def mergedPage_def merge_step_def spread_column_def)
  from merge_idempotent [OF m] m show ?thesis by simp
qed

section \<open>Properties of the loopback rewriting\<close>















section \<open>What a successful stage has done\<close>

lemma remote_Inr:
  "remote c g eff w = (Inr x, w') \<longleftrightarrow>
     outcome g w = None \<and> w' = eff (w\<lparr>trace := trace w @ [(c, None)]\<rparr>)"
  by (auto simp: remote_def split: option.splits)

lemma io_bind_Inr:
  "io_bind m f w = (Inr b, w'') \<longleftrightarrow> (\<exists>a w'. m w = (Inr a, w') \<and> f a w' = (Inr b, w''))"
  by (auto simp: io_bind_def split: prod.splits sum.splits)

lemma io_then_Inr:
  "io_then m n w = (Inr b, w'') \<longleftrightarrow> (\<exists>w'. m w = (Inr (), w') \<and> n w' = (Inr b, w''))"
  by (auto simp: io_then_def io_bind_Inr)

lemma io_return_Inr: "io_return a w = (Inr b, w') \<longleftrightarrow> b = a \<and> w' = w"
  by (auto simp: io_return_def)

lemma io_throw_Inr: "io_throw e w = (Inr b, w') \<longleftrightarrow> False"
  by (auto simp: io_throw_def)

lemma read_world_Inr: "read_world f w = (Inr b, w') \<longleftrightarrow> b = f w \<and> w' = w"
  by (auto simp: read_world_def)

lemma io_when_Inr:
  "io_when c m w = (Inr u, w') \<longleftrightarrow> (if c then m w = (Inr (), w') else w' = w)"
  by (auto simp: io_when_def io_return_def)

lemma io_catch_throw_Inr:
  "io_catch m (\<lambda>e. io_throw (h e)) w = (Inr b, w') \<longleftrightarrow> m w = (Inr b, w')"
  by (auto simp: io_catch_def io_throw_def split: prod.splits sum.splits)

lemma io_all_Inr:
  "io_all m n w = (Inr u, w'') \<longleftrightarrow> (\<exists>w'. m w = (Inr (), w') \<and> n w' = (Inr (), w''))"
  by (auto simp: io_all_def split: prod.splits sum.splits)

lemmas io_Inr = remote_Inr io_bind_Inr io_then_Inr io_return_Inr io_throw_Inr read_world_Inr
  io_when_Inr io_catch_throw_Inr io_all_Inr

lemma open_session_Inr:
  assumes "io_then getBrowser (io_then newPage (route_localhost svc)) w = (Inr url, w1)"
  shows "url = resolve_url (publicUrl svc) (storageUrl svc)"
    and "trace w1 = trace w @ session_calls svc"
    and "init_script w1 = None" and "body w1 = Blank" and "styles w1 = []"
    and "interceptor w1 = (if needs_rewrite (publicUrl svc) (storageUrl svc) then Some (storageUrl svc) else None)"
    and "pdf_load w1 = pdf_load w" and "faults w1 = faults w" and "logged w1 = logged w"
  using assms
  by (auto simp: getBrowser_def newPage_def route_localhost_def session_calls_def io_Inr Let_def
      split: if_splits)

lemma load_artboard_Inr:
  assumes "load_artboard url resume w = (Inr u, w')" and "init_script w = None"
  shows "body w' = Rendered (layout (data resume))" and "styles w' = []"
    and "trace w' = trace w @ [(Goto (url @ ''/artboard/preview''), None), (SetItem (data resume), None),
            (Reload, None), (WaitForSelector 1, None)]"
    and "pdf_load w' = pdf_load w" and "logged w' = logged w" and "interceptor w' = interceptor w"
    and "layout (data resume) \<noteq> []"
  using assms
  by (auto simp: load_artboard_def goto_def setItem_def reload_def waitForSelector_def navigate_def
      io_Inr outcome_def Let_def split: option.splits if_splits)

lemma outcome_no_guard: "outcome no_guard w = None \<longleftrightarrow> faults w (length (trace w)) = None"
  by (simp add: outcome_def no_guard_def split: option.splits)

lemma inject_css_Inr:
  "inject_css resume w = (Inr u, w') \<longleftrightarrow>
     (css_visible (data resume) \<longrightarrow> outcome no_guard w = None)
     \<and> w' = w\<lparr>trace := trace w @ css_calls resume, styles := styles w @ css_styles resume\<rparr>"
  by (auto simp: inject_css_def io_when_def io_return_def remote_Inr css_calls_def css_styles_def)

lemma capture_formatted_Inr:
  assumes "capture_formatted resume f pagesBuffer w = (Inr bufs, w')"
  shows "bufs = pagesBuffer @ [PdfOf (body w) (styles w @ css_styles resume @ [print_css]) (PaperFormat f)]"
    and "trace w' = trace w @ css_calls resume @ [(AddStyleTag print_css, None), (Pdf (PaperFormat f), None)]"
    and "pdf_load w' = pdf_load w" and "logged w' = logged w" and "body w' = body w"
  using assms
  by (auto simp: capture_formatted_def inject_css_Inr addStyleTag_def page_pdf_def io_Inr)

lemma processPage_Inr:
  assumes "processPage resume index pagesBuffer w = (Inr bufs, w')"
  shows "bufs = pagesBuffer @
           [PdfOf (PageOnly (body w) index) (styles w @ css_styles resume)
              (PaperSize (scroll_width w (body w) index)
                 (max (bounding_height w (PageOnly (body w) index))
                      (scroll_height w (PageOnly (body w) index)) + heightBuffer))]"
    and "body w' = body w"
    and "has_page (body w) index"
    and "trace w' = trace w @ [(QuerySelector index, None), (ScrollWidth, None), (IsolatePage, None)]
            @ css_calls resume
            @ [(MeasureHeight, None),
               (Pdf (PaperSize (scroll_width w (body w) index)
                 (max (bounding_height w (PageOnly (body w) index))
                      (scroll_height w (PageOnly (body w) index)) + heightBuffer)), None),
               (RestoreBody, None)]"
    and "pdf_load w' = pdf_load w" and "logged w' = logged w"
  using assms
  by (auto simp: processPage_def query_page_def element_width_def isolate_page_def
      inject_css_Inr measure_height_def page_pdf_def restore_body_def io_Inr outcome_def no_guard_def
      split: option.splits if_splits)

lemma process_pages_one:
  "process_pages resume (Suc 0) (Suc 0) pagesBuffer w = processPage resume (Suc 0) pagesBuffer w"
  by (simp add: process_pages.simps [of _ "Suc 0" "Suc 0"]
      process_pages.simps [of _ "Suc (Suc 0)" "Suc 0"] split: prod.splits sum.splits)

lemma publish_Inr:
  assumes "publish resume pagesBuffer w = (Inr url, w')"
  shows "\<exists>pdf. assemble (pdf_load w) pagesBuffer = Inr pdf
           \<and> trace w' = trace w @ [(UploadObject (userId resume) ''resumes'' (SavedPdf pdf) (title resume), None),
                 (ClosePage, None), (Disconnect, None)]"
    and "url = object_url w (userId resume) ''resumes'' (title resume)"
    and "logged w' = logged w"
  using assms
  by (auto simp: publish_def uploadObject_def close_page_def disconnect_def io_Inr
      split: sum.splits)

lemma render_pages_Inr:
  assumes "render_pages svc resume format w = (Inr bufs, resume', w')"
  shows "merge_layout resume format = Inr resume'"
    and "\<exists>w1 w2. io_then getBrowser (io_then newPage (route_localhost svc)) w
                  = (Inr (resolve_url (publicUrl svc) (storageUrl svc)), w1)
           \<and> load_artboard (resolve_url (publicUrl svc) (storageUrl svc)) resume' w1 = (Inr (), w2)
           \<and> capture resume' format (length (layout (data resume'))) w2 = (Inr bufs, w')"
proof -
  from assms obtain url w1 where
    o: "io_then getBrowser (io_then newPage (route_localhost svc)) w = (Inr url, w1)"
    by (auto simp: render_pages_def split: prod.splits sum.splits)
  from open_session_Inr(1) [OF o] have url: "url = resolve_url (publicUrl svc) (storageUrl svc)" .
  from assms o show m: "merge_layout resume format = Inr resume'"
    by (auto simp: render_pages_def Let_def split: prod.splits sum.splits)
  from assms o m have "io_then (load_artboard url resume')
         (capture resume' format (length (layout (data resume')))) w1 = (Inr bufs, w')"
    by (auto simp: render_pages_def Let_def split: prod.splits sum.splits)
  then obtain w2 where "load_artboard url resume' w1 = (Inr (), w2)"
    and "capture resume' format (length (layout (data resume'))) w2 = (Inr bufs, w')"
    by (auto simp: io_then_Inr)
  with o url show "\<exists>w1 w2. io_then getBrowser (io_then newPage (route_localhost svc)) w
                  = (Inr (resolve_url (publicUrl svc) (storageUrl svc)), w1)
           \<and> load_artboard (resolve_url (publicUrl svc) (storageUrl svc)) resume' w1 = (Inr (), w2)
           \<and> capture resume' format (length (layout (data resume'))) w2 = (Inr bufs, w')"
    by blast
qed

lemma merge_layout_None:
  "merge_layout resume None = Inr resume' \<longleftrightarrow>
     (\<exists>m. mergedPage (layout (data resume)) = Inr m
          \<and> resume' = resume\<lparr>data := (data resume)\<lparr>layout := [m]\<rparr>\<rparr>)"
  by (auto simp: merge_layout_def split: sum.splits)

lemma merge_layout_Some: "merge_layout resume (Some f) = Inr resume' \<longleftrightarrow> resume' = resume"
  by (auto simp: merge_layout_def)

lemma css_styles_merged [simp]:
  "css_styles (resume\<lparr>data := (data resume)\<lparr>layout := l\<rparr>\<rparr>) = css_styles resume"
  by (simp add: css_styles_def)

lemma render_pages_formatted:
  assumes "render_pages svc resume (Some f) w = (Inr bufs, resume', w')"
  shows "resume' = resume"
    and "bufs = [PdfOf (Rendered (layout (data resume))) (css_styles resume @ [print_css]) (PaperFormat f)]"
    and "pdf_load w' = pdf_load w"
proof -
  from render_pages_Inr [OF assms] obtain w1 w2 where
    m: "merge_layout resume (Some f) = Inr resume'" and
    o: "io_then getBrowser (io_then newPage (route_localhost svc)) w
                  = (Inr (resolve_url (publicUrl svc) (storageUrl svc)), w1)" and
    l: "load_artboard (resolve_url (publicUrl svc) (storageUrl svc)) resume' w1 = (Inr (), w2)" and
    c: "capture resume' (Some f) (length (layout (data resume'))) w2 = (Inr bufs, w')"
    by blast
  from m show r: "resume' = resume" by (simp add: merge_layout_Some)
  from c have c': "capture_formatted resume f [] w2 = (Inr bufs, w')"
    by (simp add: capture_def r)
  from load_artboard_Inr [OF l open_session_Inr(3) [OF o]] capture_formatted_Inr [OF c']
  show "bufs = [PdfOf (Rendered (layout (data resume))) (css_styles resume @ [print_css]) (PaperFormat f)]"
    by (simp add: r)
  from load_artboard_Inr(4) [OF l open_session_Inr(3) [OF o]] capture_formatted_Inr(3) [OF c']
    open_session_Inr(7) [OF o]
  show "pdf_load w' = pdf_load w" by simp
qed

lemma render_pages_continuous:
  assumes "render_pages svc resume None w = (Inr bufs, resume', w')"
  shows "\<exists>m wd ht. mergedPage (layout (data resume)) = Inr m
           \<and> resume' = resume\<lparr>data := (data resume)\<lparr>layout := [m]\<rparr>\<rparr>
           \<and> bufs = [PdfOf (PageOnly (Rendered [m]) 1) (css_styles resume) (PaperSize wd ht)]"
    and "pdf_load w' = pdf_load w"
proof -
  from render_pages_Inr [OF assms] obtain w1 w2 where
    m: "merge_layout resume None = Inr resume'" and
    o: "io_then getBrowser (io_then newPage (route_localhost svc)) w
                  = (Inr (resolve_url (publicUrl svc) (storageUrl svc)), w1)" and
    l: "load_artboard (resolve_url (publicUrl svc) (storageUrl svc)) resume' w1 = (Inr (), w2)" and
    c: "capture resume' None (length (layout (data resume'))) w2 = (Inr bufs, w')"
    by blast
  from m obtain mp where mp: "mergedPage (layout (data resume)) = Inr mp"
    and r: "resume' = resume\<lparr>data := (data resume)\<lparr>layout := [mp]\<rparr>\<rparr>"
    by (auto simp: merge_layout_None)
  from c have c': "processPage resume' (Suc 0) [] w2 = (Inr bufs, w')"
    by (simp add: capture_def r process_pages_one)
  from load_artboard_Inr [OF l open_session_Inr(3) [OF o]] processPage_Inr(1) [OF c'] mp r
  show "\<exists>m wd ht. mergedPage (layout (data resume)) = Inr m
           \<and> resume' = resume\<lparr>data := (data resume)\<lparr>layout := [m]\<rparr>\<rparr>
           \<and> bufs = [PdfOf (PageOnly (Rendered [m]) 1) (css_styles resume) (PaperSize wd ht)]"
    by simp
  from load_artboard_Inr(4) [OF l open_session_Inr(3) [OF o]] processPage_Inr(5) [OF c']
    open_session_Inr(7) [OF o]
  show "pdf_load w' = pdf_load w" by simp
qed

lemma render_pages_formatted_trace:
  assumes "render_pages svc resume (Some f) w = (Inr bufs, resume', w')"
  shows "trace w' = trace w @ session_calls svc
           @ [(Goto (resolve_url (publicUrl svc) (storageUrl svc) @ ''/artboard/preview''), None),
              (SetItem (data resume), None), (Reload, None), (WaitForSelector 1, None)]
           @ css_calls resume
           @ [(AddStyleTag print_css, None), (Pdf (PaperFormat f), None)]"
proof -
  from render_pages_Inr [OF assms] obtain w1 w2 where
    m: "merge_layout resume (Some f) = Inr resume'" and
    o: "io_then getBrowser (io_then newPage (route_localhost svc)) w
                  = (Inr (resolve_url (publicUrl svc) (storageUrl svc)), w1)" and
    l: "load_artboard (resolve_url (publicUrl svc) (storageUrl svc)) resume' w1 = (Inr (), w2)" and
    c: "capture resume' (Some f) (length (layout (data resume'))) w2 = (Inr bufs, w')"
    by blast
  from m have r: "resume' = resume" by (simp add: merge_layout_Some)
  from c have c': "capture_formatted resume f [] w2 = (Inr bufs, w')"
    by (simp add: capture_def r)
  from capture_formatted_Inr(2) [OF c'] load_artboard_Inr(3) [OF l open_session_Inr(3) [OF o]]
    open_session_Inr(2) [OF o]
  show ?thesis by (simp add: r)
qed

lemma print_css_breaks:
  "sublist ''[data-page] { break-after: page; page-break-after: always; }'' print_css"
  "sublist ''[data-page]:last-child { break-after: auto; page-break-after: auto; }'' print_css"
  by code_simp+

text \<open>
  Claim C5, as the code has it. Whenever the generation reaches the assembly,
  \<^verbatim>\<open>pagesBuffer\<close> holds exactly one buffer. Without a format it is the export of
  the single merged page (all pages of the request in one layout, captured as
  page 1 in a custom size). With a format it is one buffer, not N: the result of
  the only export call of the attempt, made in that paper format on the document
  that renders all N pages of the unmerged layout (it has the page containers 1
  to N), after the style sheet has been added whose rules force a page break
  after every page container and none after the last. How many physical pages
  the engine puts into that buffer is not decided by the service.
\<close>

theorem one_buffer_per_request:
  assumes "render_pages svc resume format w = (Inr bufs, resume', w')"
  shows "length bufs = 1
     \<and> (format = None \<longrightarrow>
          (\<exists>m wd ht. mergedPage (layout (data resume)) = Inr m
             \<and> layout (data resume') = [m]
             \<and> bufs = [PdfOf (PageOnly (Rendered [m]) 1) (css_styles resume) (PaperSize wd ht)]))
     \<and> (\<forall>f. format = Some f \<longrightarrow>
          layout (data resume') = layout (data resume)
          \<and> bufs = [PdfOf (Rendered (layout (data resume))) (css_styles resume @ [print_css])
                      (PaperFormat f)]
          \<and> (\<forall>k. has_page (Rendered (layout (data resume))) k
                   \<longleftrightarrow> 1 \<le> k \<and> k \<le> length (layout (data resume)))
          \<and> trace w' = trace w @ session_calls svc
               @ [(Goto (resolve_url (publicUrl svc) (storageUrl svc) @ ''/artboard/preview''), None),
                  (SetItem (data resume), None), (Reload, None), (WaitForSelector 1, None)]
               @ css_calls resume
               @ [(AddStyleTag print_css, None), (Pdf (PaperFormat f), None)])
     \<and> sublist ''[data-page] { break-after: page; page-break-after: always; }'' print_css
     \<and> sublist ''[data-page]:last-child { break-after: auto; page-break-after: auto; }'' print_css"
proof (cases format)
  case None
  with render_pages_continuous(1) [of svc resume w bufs resume' w'] assms print_css_breaks
  show ?thesis by auto
next
  case (Some f)
  with render_pages_formatted [of svc resume f w bufs resume' w']
    render_pages_formatted_trace [of svc resume f w bufs resume' w'] assms print_css_breaks
  show ?thesis by auto
qed

theorem one_buffer_per_request_witness:
  "fst (render_pages local_service two_pages (Some A4) quiet_world)
     = Inr [PdfOf (Rendered (layout (data two_pages))) [print_css] (PaperFormat A4)]
   \<and> fst (render_pages local_service two_pages None quiet_world)
       = Inr [PdfOf (PageOnly (Rendered [[[''A'', ''B'', ''C'', ''D''], [''E'', ''F'']]]) 1) []
               (PaperSize 794 1120)]
   \<and> map fst (trace (snd (snd (render_pages local_service two_pages (Some A4) quiet_world))))
       = [Connect, NewPage, SetRequestInterception,
          Goto ''http://host.docker.internal:3000/artboard/preview'', SetItem (data two_pages),
          Reload, WaitForSelector 1, AddStyleTag print_css, Pdf (PaperFormat A4)]"
proof -
  have "isl (fst (render_pages local_service two_pages (Some A4) quiet_world)) = False"
    by code_simp
  then obtain b1 r1 w1 where
    rf: "render_pages local_service two_pages (Some A4) quiet_world = (Inr b1, r1, w1)"
    by (cases "render_pages local_service two_pages (Some A4) quiet_world";
        cases "fst (render_pages local_service two_pages (Some A4) quiet_world)") auto
  have "isl (fst (render_pages local_service two_pages None quiet_world)) = False"
    by code_simp
  then obtain b2 r2 w2 where
    rc: "render_pages local_service two_pages None quiet_world = (Inr b2, r2, w2)"
    by (cases "render_pages local_service two_pages None quiet_world";
        cases "fst (render_pages local_service two_pages None quiet_world)") auto
  from one_buffer_per_request [OF rf]
  have 1: "b1 = [PdfOf (Rendered (layout (data two_pages))) (css_styles two_pages @ [print_css])
                  (PaperFormat A4)]"
    and 3: "trace w1 = trace quiet_world @ session_calls local_service
               @ [(Goto (resolve_url (publicUrl local_service) (storageUrl local_service)
                    @ ''/artboard/preview''), None),
                  (SetItem (data two_pages), None), (Reload, None), (WaitForSelector 1, None)]
               @ css_calls two_pages
               @ [(AddStyleTag print_css, None), (Pdf (PaperFormat A4), None)]"
    by blast+
  from one_buffer_per_request [OF rc] obtain m wd ht where
    m: "mergedPage (layout (data two_pages)) = Inr m" and
    2: "b2 = [PdfOf (PageOnly (Rendered [m]) 1) (css_styles two_pages) (PaperSize wd ht)]"
    by blast
  have m': "mergedPage (layout (data two_pages)) = Inr [[''A'', ''B'', ''C'', ''D''], [''E'', ''F'']]"
    by code_simp
  have s: "css_styles two_pages = []" "css_calls two_pages = []"
    by (simp_all add: css_styles_def css_calls_def two_pages_def)
  have u: "resolve_url (publicUrl local_service) (storageUrl local_service)
             = ''http://host.docker.internal:3000''"
    "session_calls local_service = [(Connect, None), (NewPage, None), (SetRequestInterception, None)]"
    "trace quiet_world = []"
    by code_simp+
  have c: "fst (render_pages local_service two_pages None quiet_world)
       = Inr [PdfOf (PageOnly (Rendered [[[''A'', ''B'', ''C'', ''D''], [''E'', ''F'']]]) 1) []
               (PaperSize 794 1120)]"
    by code_simp
  from 1 3 rf rc s u c show ?thesis by simp
qed

text \<open>
  The claim as it is written fails on the number of physical pages: on an engine
  that needs two sheets for every page container, the one buffer of the
  formatted branch holds four physical pages for the two pages of the example,
  and so does the document that is uploaded.
\<close>

theorem four_sheets_for_two_pages:
  "length (layout (data two_pages)) = 2
   \<and> fst (render_pages local_service two_pages (Some A4) tall_world)
       = Inr [PdfOf (Rendered (layout (data two_pages))) [print_css] (PaperFormat A4)]
   \<and> pdf_load tall_world (PdfOf (Rendered (layout (data two_pages))) [print_css] (PaperFormat A4))
       = Some [''ABE'', ''(continued)'', ''CDF'', ''(continued)'']
   \<and> last (butlast (butlast (trace (snd (snd (generateResume local_service two_pages (Some A4) tall_world))))))
       = (UploadObject ''u1'' ''resumes''
            (SavedPdf [''ABE'', ''(continued)'', ''CDF'', ''(continued)'']) ''cv'', None)"
  by code_simp

section \<open>The loop over the pages, and the whole generation\<close>

lemma process_pages_Inr:
  "process_pages resume i n bufs w = (Inr bufs', w') \<Longrightarrow>
   body w' = body w \<and>
   (\<exists>new. bufs' = bufs @ new \<and>
      list_all2 (\<lambda>k b. \<exists>css opts. b = PdfOf (PageOnly (body w) k) css opts) [i..<Suc n] new)"
proof (induction resume i n bufs w rule: process_pages.induct)
  case (1 resume index numberPages pagesBuffer w)
  show ?case
  proof (cases "index \<le> numberPages")
    case False
    with "1.prems" show ?thesis by (simp add: process_pages.simps)
  next
    case True
    with "1.prems" obtain bufs1 w1 where
      p: "processPage resume index pagesBuffer w = (Inr bufs1, w1)" and
      r: "process_pages resume (Suc index) numberPages bufs1 w1 = (Inr bufs', w')"
      by (simp add: process_pages.simps [of resume index] split: prod.splits sum.splits)
    from "1.IH" [OF True p [symmetric] refl r] obtain new where
      b: "body w' = body w1" and n: "bufs' = bufs1 @ new" and
      l: "list_all2 (\<lambda>k b. \<exists>css opts. b = PdfOf (PageOnly (body w1) k) css opts)
            [Suc index..<Suc numberPages] new"
      by blast
    from processPage_Inr(1,2) [OF p] obtain css opts where
      b1: "bufs1 = pagesBuffer @ [PdfOf (PageOnly (body w) index) css opts]" and
      bw: "body w1 = body w"
      by blast
    from True have u: "[index..<Suc numberPages] = index # [Suc index..<Suc numberPages]"
      by (simp add: upt_conv_Cons)
    from b n l b1 bw show ?thesis
      unfolding u by auto
  qed
qed

lemma process_pages_Inl:
  "processPage resume k bufs w = (Inl e, w') \<Longrightarrow> k \<le> n \<Longrightarrow>
   process_pages resume k n bufs w = (Inl e, w')"
  by (simp add: process_pages.simps [of resume k])

lemma PageOnly_neq: "PageOnly b k \<noteq> b"
  by (induction b) auto

lemma remote_Inl:
  "remote c g eff w = (Inl e, w') \<longleftrightarrow>
     (\<exists>m. outcome g w = Some m \<and> e = Error m \<and> w' = w\<lparr>trace := trace w @ [(c, Some m)]\<rparr>)"
  by (auto simp: remote_def split: option.splits)

lemma io_bind_Inl:
  "io_bind m f w = (Inl e, w'') \<longleftrightarrow>
     m w = (Inl e, w'') \<or> (\<exists>a w'. m w = (Inr a, w') \<and> f a w' = (Inl e, w''))"
  by (auto simp: io_bind_def split: prod.splits sum.splits)

lemma io_then_Inl:
  "io_then m n w = (Inl e, w'') \<longleftrightarrow>
     m w = (Inl e, w'') \<or> (\<exists>w'. m w = (Inr (), w') \<and> n w' = (Inl e, w''))"
  by (auto simp: io_then_def io_bind_Inl)

lemma io_return_Inl: "io_return a w = (Inl e, w') \<longleftrightarrow> False"
  by (simp add: io_return_def)

lemma read_world_Inl: "read_world f w = (Inl e, w') \<longleftrightarrow> False"
  by (simp add: read_world_def)

lemma inject_css_Inl:
  "inject_css resume w = (Inl e, w') \<longleftrightarrow>
     css_visible (data resume)
     \<and> (\<exists>m. outcome no_guard w = Some m \<and> e = Error m
           \<and> w' = w\<lparr>trace := trace w @ [(AppendStyle (css_value (data resume)), Some m)]\<rparr>)"
  by (auto simp: inject_css_def io_when_def io_return_def remote_Inl)

lemmas io_Inl = remote_Inl io_bind_Inl io_then_Inl io_return_Inl read_world_Inl inject_css_Inl

lemma processPage_export_fails:
  assumes "processPage resume k bufs w = (Inl e, w')"
    and "fst (last (trace w')) = Pdf opts"
  shows "body w' = PageOnly (body w) k"
  using assms
  by (auto simp: processPage_def query_page_def element_width_def isolate_page_def
      inject_css_Inr measure_height_def page_pdf_def restore_body_def io_Inr io_Inl
      outcome_def no_guard_def css_calls_def
      split: option.splits if_splits)

lemma generateResume_Inr:
  assumes "generateResume svc resume format w = (Inr url, resume', w')"
  shows "\<exists>bufs w1 pdf. render_pages svc resume format w = (Inr bufs, resume', w1)
           \<and> assemble (pdf_load w1) bufs = Inr pdf
           \<and> trace w' = trace w1 @
                 [(UploadObject (userId resume') ''resumes'' (SavedPdf pdf) (title resume'), None),
                  (ClosePage, None), (Disconnect, None)]"
proof -
  from assms have t: "generateResume_try svc resume format w = (Inr url, resume', w')"
    by (auto simp: generateResume_def split: prod.splits sum.splits)
  then obtain bufs w1 where r: "render_pages svc resume format w = (Inr bufs, resume', w1)"
    and p: "publish resume' bufs w1 = (Inr url, w')"
    by (auto simp: generateResume_try_def split: prod.splits sum.splits)
  from publish_Inr(1) [OF p] r show ?thesis by blast
qed




lemma render_pages_trace:
  assumes "render_pages svc resume format w = (Inr bufs, resume', w')"
  shows "\<exists>rest. trace w' = trace w @ session_calls svc
           @ [(Goto (resolve_url (publicUrl svc) (storageUrl svc) @ ''/artboard/preview''), None),
              (SetItem (data resume'), None), (Reload, None), (WaitForSelector 1, None)]
           @ rest
           \<and> (\<forall>c \<in> fst ` set rest. c \<noteq> Connect \<and> c \<noteq> NewPage \<and> c \<noteq> ClosePage \<and> c \<noteq> Disconnect)"
proof -
  from render_pages_Inr [OF assms] obtain w1 w2 where
    m: "merge_layout resume format = Inr resume'" and
    o: "io_then getBrowser (io_then newPage (route_localhost svc)) w
                  = (Inr (resolve_url (publicUrl svc) (storageUrl svc)), w1)" and
    l: "load_artboard (resolve_url (publicUrl svc) (storageUrl svc)) resume' w1 = (Inr (), w2)" and
    c: "capture resume' format (length (layout (data resume'))) w2 = (Inr bufs, w')"
    by blast
  note t2 = load_artboard_Inr(3) [OF l open_session_Inr(3) [OF o]] open_session_Inr(2) [OF o]
  show ?thesis
  proof (cases format)
    case (Some f)
    with c have "capture_formatted resume' f [] w2 = (Inr bufs, w')"
      by (simp add: capture_def)
    from capture_formatted_Inr(2) [OF this] t2 show ?thesis
      by (auto simp: css_calls_def)
  next
    case None
    with m obtain mp where "resume' = resume\<lparr>data := (data resume)\<lparr>layout := [mp]\<rparr>\<rparr>"
      by (auto simp: merge_layout_None)
    with c None have "processPage resume' (Suc 0) [] w2 = (Inr bufs, w')"
      by (simp add: capture_def process_pages_one)
    from processPage_Inr(4) [OF this] t2 show ?thesis
      by (auto simp: css_calls_def)
  qed
qed

section \<open>Continuous capture\<close>

text \<open>
  Claim C2, as the code has it. The loop of the continuous capture yields one
  buffer per page index from 1 to the number of pages it is given, in ascending
  order. But without a format the layout has been merged before the pages are
  counted, so the loop runs over one page: a request with N pages and no format
  yields exactly one buffer, the export of the merged page, and the final
  document that is uploaded consists of the pages this one buffer parses to.
\<close>

theorem continuous_capture_one_buffer:
  "(\<forall>n bufs w'. process_pages resume 1 n [] w = (Inr bufs, w') \<longrightarrow>
      list_all2 (\<lambda>k b. \<exists>css opts. b = PdfOf (PageOnly (body w) k) css opts) [1..<Suc n] bufs)
   \<and> (\<forall>bufs resume' w'. render_pages svc resume None w = (Inr bufs, resume', w') \<longrightarrow>
        (\<exists>m css opts. mergedPage (layout (data resume)) = Inr m
           \<and> layout (data resume') = [m]
           \<and> bufs = [PdfOf (PageOnly (Rendered [m]) 1) css opts]))
   \<and> (\<forall>url resume' w'. generateResume svc resume None w = (Inr url, resume', w') \<longrightarrow>
        (\<exists>m css opts doc. mergedPage (layout (data resume)) = Inr m
           \<and> pdf_load w (PdfOf (PageOnly (Rendered [m]) 1) css opts) = Some doc
           \<and> (UploadObject (userId resume) ''resumes'' (SavedPdf doc) (title resume), None)
                \<in> set (trace w')))"
proof (intro conjI allI impI)
  fix n bufs w'
  assume "process_pages resume 1 n [] w = (Inr bufs, w')"
  from process_pages_Inr [OF this]
  show "list_all2 (\<lambda>k b. \<exists>css opts. b = PdfOf (PageOnly (body w) k) css opts) [1..<Suc n] bufs"
    by simp
next
  fix bufs resume' w'
  assume "render_pages svc resume None w = (Inr bufs, resume', w')"
  from render_pages_continuous(1) [OF this]
  show "\<exists>m css opts. mergedPage (layout (data resume)) = Inr m
           \<and> layout (data resume') = [m]
           \<and> bufs = [PdfOf (PageOnly (Rendered [m]) 1) css opts]"
    by auto
next
  fix url resume' w'
  assume "generateResume svc resume None w = (Inr url, resume', w')"
  from generateResume_Inr [OF this] obtain bufs w1 pdf where
    r: "render_pages svc resume None w = (Inr bufs, resume', w1)" and
    a: "assemble (pdf_load w1) bufs = Inr pdf" and
    t: "trace w' = trace w1 @
                 [(UploadObject (userId resume') ''resumes'' (SavedPdf pdf) (title resume'), None),
                  (ClosePage, None), (Disconnect, None)]"
    by blast
  from render_pages_continuous [OF r] obtain m wd ht where
    m: "mergedPage (layout (data resume)) = Inr m" and
    r': "resume' = resume\<lparr>data := (data resume)\<lparr>layout := [m]\<rparr>\<rparr>" and
    b: "bufs = [PdfOf (PageOnly (Rendered [m]) 1) (css_styles resume) (PaperSize wd ht)]" and
    l: "pdf_load w1 = pdf_load w"
    by blast
  from a b l have "pdf_load w (PdfOf (PageOnly (Rendered [m]) 1) (css_styles resume) (PaperSize wd ht)) = Some pdf"
    by (simp add: assemble_single split: option.splits)
  with m t r' show "\<exists>m css opts doc. mergedPage (layout (data resume)) = Inr m
           \<and> pdf_load w (PdfOf (PageOnly (Rendered [m]) 1) css opts) = Some doc
           \<and> (UploadObject (userId resume) ''resumes'' (SavedPdf doc) (title resume), None)
                \<in> set (trace w')"
    by auto
qed

theorem continuous_capture_one_buffer_witness:
  "\<exists>m css opts. mergedPage (layout (data two_pages)) = Inr m
     \<and> fst (render_pages local_service two_pages None quiet_world)
         = Inr [PdfOf (PageOnly (Rendered [m]) 1) css opts]"
proof -
  have "isl (fst (render_pages local_service two_pages None quiet_world)) = False"
    by code_simp
  then obtain bufs r0 w0 where
    r: "render_pages local_service two_pages None quiet_world = (Inr bufs, r0, w0)"
    by (cases "render_pages local_service two_pages None quiet_world";
        cases "fst (render_pages local_service two_pages None quiet_world)") auto
  from continuous_capture_one_buffer [of two_pages quiet_world local_service] r
  have "\<exists>m css opts. mergedPage (layout (data two_pages)) = Inr m
           \<and> layout (data r0) = [m]
           \<and> bufs = [PdfOf (PageOnly (Rendered [m]) 1) css opts]"
    by blast
  with r show ?thesis by auto
qed

text \<open>
  The claim as it is written fails on a resume with two pages: one buffer is
  captured, and the uploaded document has the one page of that buffer.
\<close>

theorem two_pages_one_buffer:
  "length (layout (data two_pages)) = 2
   \<and> fst (render_pages local_service two_pages None quiet_world)
       = Inr [PdfOf (PageOnly (Rendered [[[''A'', ''B'', ''C'', ''D''], [''E'', ''F'']]]) 1) []
               (PaperSize 794 1120)]
   \<and> fst (generateResume local_service two_pages None quiet_world)
       = Inr ''https://files.example.com/u1/resumes/cv''
   \<and> last (butlast (butlast (trace (snd (snd (generateResume local_service two_pages None quiet_world))))))
       = (UploadObject ''u1'' ''resumes'' (SavedPdf [''ABCDEF'']) ''cv'', None)"
  by code_simp

section \<open>Where the pages are merged\<close>

text \<open>
  Claim C6, as the code has it. The merge belongs to the branch without a format.
  There the layout becomes one page whose first column is the concatenation of
  the first columns of all pages, in page order, and whose second column is the
  concatenation of their second columns (it succeeds whenever every page has two
  columns); that one-page layout is what the tab is given. With a format the
  layout is left as it is, and the tab is given all its pages.
\<close>

theorem merge_is_for_web_branch:
  "merge_layout resume (Some f) = Inr resume
   \<and> (\<forall>resume'. merge_layout resume None = Inr resume' \<longrightarrow>
         resume' = resume\<lparr>data := (data resume)\<lparr>layout :=
            [[concat (map (\<lambda>p. p ! 0) (layout (data resume))),
              concat (map (\<lambda>p. p ! 1) (layout (data resume)))]]\<rparr>\<rparr>)
   \<and> ((\<forall>p \<in> set (layout (data resume)). 2 \<le> length p) \<longrightarrow>
         (\<exists>resume'. merge_layout resume None = Inr resume'))
   \<and> (\<forall>bufs resume' w'. render_pages svc resume format w = (Inr bufs, resume', w') \<longrightarrow>
         merge_layout resume format = Inr resume'
         \<and> (SetItem (data resume'), None) \<in> set (trace w'))"
proof (intro conjI allI impI)
  show "merge_layout resume (Some f) = Inr resume" by (simp add: merge_layout_def)
next
  fix resume' assume "merge_layout resume None = Inr resume'"
  then show "resume' = resume\<lparr>data := (data resume)\<lparr>layout :=
            [[concat (map (\<lambda>p. p ! 0) (layout (data resume))),
              concat (map (\<lambda>p. p ! 1) (layout (data resume)))]]\<rparr>\<rparr>"
    by (auto simp: merge_layout_None dest: mergedPage_columns)
next
  assume "\<forall>p \<in> set (layout (data resume)). 2 \<le> length p"
  from reduce_merge_total [OF this, of "[[], []]"]
  show "\<exists>resume'. merge_layout resume None = Inr resume'"
    by (auto simp: merge_layout_def mergedPage_def)
next
  fix bufs resume' w'
  assume r: "render_pages svc resume format w = (Inr bufs, resume', w')"
  from render_pages_Inr(1) [OF r] show "merge_layout resume format = Inr resume'" .
  from render_pages_trace [OF r] show "(SetItem (data resume'), None) \<in> set (trace w')"
    by auto
qed

theorem merge_is_for_web_branch_witness:
  "merge_layout two_pages (Some A4) = Inr two_pages
   \<and> merge_layout two_pages None
       = Inr (two_pages\<lparr>data := (data two_pages)\<lparr>layout :=
               [[[''A'', ''B'', ''C'', ''D''], [''E'', ''F'']]]\<rparr>\<rparr>)"
proof -
  note t = merge_is_for_web_branch [of two_pages A4 local_service None quiet_world]
  have "\<forall>p \<in> set (layout (data two_pages)). 2 \<le> length p"
    by (simp add: two_pages_def)
  with t obtain r where r: "merge_layout two_pages None = Inr r" by blast
  with t have "r = two_pages\<lparr>data := (data two_pages)\<lparr>layout :=
            [[concat (map (\<lambda>p. p ! 0) (layout (data two_pages))),
              concat (map (\<lambda>p. p ! 1) (layout (data two_pages)))]]\<rparr>\<rparr>"
    by blast
  moreover have "layout (data two_pages) = [[[''A'', ''B''], [''E'']], [[''C'', ''D''], [''F'']]]"
    by (simp add: two_pages_def)
  moreover from t have "merge_layout two_pages (Some A4) = Inr two_pages" by blast
  ultimately show ?thesis using r by simp
qed

text \<open>
  The claim as it is written fails: in the formatted branch the two pages of the
  example stay two pages, and the tab is given both; the merged page is another
  layout.
\<close>

theorem formatted_branch_keeps_pages:
  "fst (snd (render_pages local_service two_pages (Some A4) quiet_world)) = two_pages
   \<and> layout (data two_pages) = [[[''A'', ''B''], [''E'']], [[''C'', ''D''], [''F'']]]
   \<and> trace (snd (snd (render_pages local_service two_pages (Some A4) quiet_world))) ! 4
       = (SetItem (data two_pages), None)
   \<and> mergedPage (layout (data two_pages)) = Inr [[''A'', ''B'', ''C'', ''D''], [''E'', ''F'']]"
  by code_simp

section \<open>What the generation does to the request\<close>




section \<open>Restoring the body\<close>

text \<open>
  Where a failed page leaves the body: as it was when the failing call is the
  query, the reading of the width or the isolating script; the clone of the page
  when it is a later call.
\<close>

lemma processPage_fails:
  assumes "processPage resume k bufs w = (Inl e, w')"
  shows "(body w' = body w
            \<and> fst (last (trace w')) \<in> {QuerySelector k, ScrollWidth, IsolatePage})
         \<or> (body w' = PageOnly (body w) k
            \<and> fst (last (trace w'))
                \<in> {AppendStyle (css_value (data resume)), MeasureHeight, RestoreBody} \<union> range Pdf)"
  using assms
  by (auto simp: processPage_def query_page_def element_width_def isolate_page_def
      inject_css_Inr measure_height_def page_pdf_def restore_body_def io_Inr io_Inl
      outcome_def no_guard_def css_calls_def
      split: option.splits if_splits)

lemma processPage_fails_body:
  assumes "processPage resume k bufs w = (Inl e, w')"
  shows "body w' = PageOnly (body w) k \<longleftrightarrow>
           fst (last (trace w'))
             \<in> {AppendStyle (css_value (data resume)), MeasureHeight, RestoreBody} \<union> range Pdf"
    and "body w' = body w \<longleftrightarrow>
           fst (last (trace w')) \<in> {QuerySelector k, ScrollWidth, IsolatePage}"
  using processPage_fails [OF assms] PageOnly_neq [of "body w" k]
  by auto

lemma generateResume_page_fails:
  assumes o: "io_then getBrowser (io_then newPage (route_localhost svc)) w0 = (Inr url, w1)"
    and m: "merge_layout r0 None = Inr resume"
    and l: "load_artboard url resume w1 = (Inr (), w)"
    and p: "processPage resume 1 [] w = (Inl e, w')"
  shows "generateResume svc r0 None w0
           = (Inl (InternalServerError ResumePrinterError (message e)), resume,
              w'\<lparr>logged := logged w' @ [LogError e]\<rparr>)"
proof -
  from m obtain mp where "resume = r0\<lparr>data := (data r0)\<lparr>layout := [mp]\<rparr>\<rparr>"
    by (auto simp: merge_layout_None)
  then have n: "length (layout (data resume)) = Suc 0" by simp
  from p have "process_pages resume (Suc 0) (Suc 0) [] w = (Inl e, w')"
    by (simp add: process_pages_Inl)
  then have "capture resume None (Suc 0) w = (Inl e, w')"
    by (simp add: capture_def)
  with l have "io_then (load_artboard url resume) (capture resume None (Suc 0)) w1 = (Inl e, w')"
    by (simp add: io_then_def io_bind_def)
  with o m n have "render_pages svc r0 None w0 = (Inl e, resume, w')"
    by (simp add: render_pages_def)
  then show ?thesis
    by (simp add: generateResume_def generateResume_try_def)
qed


text \<open>
  Claim C4, as the code has it. A page that \<^verbatim>\<open>processPage\<close> completes (its export
  and the call that restores the body both succeeded) leaves the body as it
  found it, so every page the loop processes starts from the body before any
  capture. A page on which a call fails ends the loop with that error and in the
  world the failed page left: no later page is processed in that attempt, and the
  generation as a whole fails with the code of the printer and the message of
  that error. Nothing restores the body then: when the failing call is the export,
  the call that restores the body, the injection of the custom style or the
  measurement, the body is still the clone of the page; it is the body before the
  capture only when the failing call came before the isolation.
\<close>

theorem body_restored_or_attempt_aborted:
  "(\<forall>bufs' w'. processPage resume k bufs w = (Inr bufs', w') \<longrightarrow> body w' = body w)
   \<and> (\<forall>bufs' w'. process_pages resume k n bufs w = (Inr bufs', w') \<longrightarrow> body w' = body w)
   \<and> (\<forall>e w'. processPage resume k bufs w = (Inl e, w') \<and> k \<le> n \<longrightarrow>
         process_pages resume k n bufs w = (Inl e, w'))
   \<and> (\<forall>e w' opts. processPage resume k bufs w = (Inl e, w') \<and> fst (last (trace w')) = Pdf opts
         \<longrightarrow> body w' = PageOnly (body w) k \<and> body w' \<noteq> body w)
   \<and> (\<forall>e w'. processPage resume k bufs w = (Inl e, w') \<and> fst (last (trace w')) = RestoreBody
         \<longrightarrow> body w' = PageOnly (body w) k \<and> body w' \<noteq> body w)
   \<and> (\<forall>e w'. processPage resume k bufs w = (Inl e, w') \<longrightarrow>
         (body w' = PageOnly (body w) k \<longleftrightarrow>
            fst (last (trace w'))
              \<in> {AppendStyle (css_value (data resume)), MeasureHeight, RestoreBody} \<union> range Pdf)
         \<and> (body w' = body w \<longleftrightarrow>
            fst (last (trace w')) \<in> {QuerySelector k, ScrollWidth, IsolatePage})
         \<and> (body w' = body w \<or> body w' = PageOnly (body w) k))
   \<and> (\<forall>svc r0 w0 url w1 e w'.
         io_then getBrowser (io_then newPage (route_localhost svc)) w0 = (Inr url, w1)
         \<and> merge_layout r0 None = Inr resume
         \<and> load_artboard url resume w1 = (Inr (), w)
         \<and> processPage resume 1 [] w = (Inl e, w')
         \<longrightarrow> generateResume svc r0 None w0
               = (Inl (InternalServerError ResumePrinterError (message e)), resume,
                  w'\<lparr>logged := logged w' @ [LogError e]\<rparr>))"
proof -
  have a: "\<forall>bufs' w'. processPage resume k bufs w = (Inr bufs', w') \<longrightarrow> body w' = body w"
    using processPage_Inr(2) by blast
  have b: "\<forall>bufs' w'. process_pages resume k n bufs w = (Inr bufs', w') \<longrightarrow> body w' = body w"
    using process_pages_Inr by metis
  have c: "\<forall>e w'. processPage resume k bufs w = (Inl e, w') \<and> k \<le> n \<longrightarrow>
         process_pages resume k n bufs w = (Inl e, w')"
    using process_pages_Inl by blast
  have d: "\<forall>e w' opts. processPage resume k bufs w = (Inl e, w') \<and> fst (last (trace w')) = Pdf opts
         \<longrightarrow> body w' = PageOnly (body w) k \<and> body w' \<noteq> body w"
    using processPage_export_fails PageOnly_neq by metis
  have e: "\<forall>e w'. processPage resume k bufs w = (Inl e, w') \<and> fst (last (trace w')) = RestoreBody
         \<longrightarrow> body w' = PageOnly (body w) k \<and> body w' \<noteq> body w"
  proof (intro allI impI, elim conjE)
    fix e w'
    assume p: "processPage resume k bufs w = (Inl e, w')"
      and r: "fst (last (trace w')) = RestoreBody"
    from processPage_fails_body(1) [OF p] r have "body w' = PageOnly (body w) k" by simp
    then show "body w' = PageOnly (body w) k \<and> body w' \<noteq> body w"
      by (simp add: PageOnly_neq)
  qed
  have f: "\<forall>e w'. processPage resume k bufs w = (Inl e, w') \<longrightarrow>
         (body w' = PageOnly (body w) k \<longleftrightarrow>
            fst (last (trace w'))
              \<in> {AppendStyle (css_value (data resume)), MeasureHeight, RestoreBody} \<union> range Pdf)
         \<and> (body w' = body w \<longleftrightarrow>
            fst (last (trace w')) \<in> {QuerySelector k, ScrollWidth, IsolatePage})
         \<and> (body w' = body w \<or> body w' = PageOnly (body w) k)"
  proof (intro allI impI)
    fix e w'
    assume p: "processPage resume k bufs w = (Inl e, w')"
    from processPage_fails [OF p] have "body w' = body w \<or> body w' = PageOnly (body w) k"
      by blast
    with processPage_fails_body [OF p]
    show "(body w' = PageOnly (body w) k \<longleftrightarrow>
            fst (last (trace w'))
              \<in> {AppendStyle (css_value (data resume)), MeasureHeight, RestoreBody} \<union> range Pdf)
         \<and> (body w' = body w \<longleftrightarrow>
            fst (last (trace w')) \<in> {QuerySelector k, ScrollWidth, IsolatePage})
         \<and> (body w' = body w \<or> body w' = PageOnly (body w) k)"
      by blast
  qed
  have g: "\<forall>svc r0 w0 url w1 e w'.
         io_then getBrowser (io_then newPage (route_localhost svc)) w0 = (Inr url, w1)
         \<and> merge_layout r0 None = Inr resume
         \<and> load_artboard url resume w1 = (Inr (), w)
         \<and> processPage resume 1 [] w = (Inl e, w')
         \<longrightarrow> generateResume svc r0 None w0
               = (Inl (InternalServerError ResumePrinterError (message e)), resume,
                  w'\<lparr>logged := logged w' @ [LogError e]\<rparr>)"
    by (intro allI impI, elim conjE) (rule generateResume_page_fails; assumption)
  show ?thesis by (intro conjI) (rule a b c d e f g)+
qed

theorem body_restored_or_attempt_aborted_witness:
  "body (snd (processPage two_pages 1 [] rendered_world)) = body rendered_world
   \<and> process_pages two_pages 1 2 [] export_fails = processPage two_pages 1 [] export_fails
   \<and> isl (fst (processPage two_pages 1 [] export_fails))
   \<and> body (snd (processPage two_pages 1 [] export_fails)) = PageOnly (body export_fails) 1
   \<and> fst (processPage two_pages 1 [] restore_fails) = Inl (Error ''Target closed'')
   \<and> last (trace (snd (processPage two_pages 1 [] restore_fails)))
       = (RestoreBody, Some ''Target closed'')
   \<and> body (snd (processPage two_pages 1 [] restore_fails)) = PageOnly (body restore_fails) 1
   \<and> fst (generateResume local_service two_pages None (failing_at 12 ''Target closed''))
       = Inl (InternalServerError ''ResumePrinterError'' ''Target closed'')"
proof -
  have "isl (fst (processPage two_pages 1 [] rendered_world)) = False"
    by code_simp
  then obtain bufs w1 where
    p: "processPage two_pages 1 [] rendered_world = (Inr bufs, w1)"
    by (cases "processPage two_pages 1 [] rendered_world";
        cases "fst (processPage two_pages 1 [] rendered_world)") auto
  from body_restored_or_attempt_aborted [of two_pages 1 "[]" rendered_world 2] p
  have 1: "body w1 = body rendered_world" by blast
  have f: "isl (fst (processPage two_pages 1 [] export_fails))"
    by code_simp
  then obtain e w2 where
    q: "processPage two_pages 1 [] export_fails = (Inl e, w2)"
    by (cases "processPage two_pages 1 [] export_fails";
        cases "fst (processPage two_pages 1 [] export_fails)") auto
  have "(1::nat) \<le> 2" by simp
  with body_restored_or_attempt_aborted [of two_pages 1 "[]" export_fails 2, THEN conjunct2,
      THEN conjunct2, THEN conjunct1] q
  have 2: "process_pages two_pages 1 2 [] export_fails = (Inl e, w2)" by blast
  have "fst (last (trace (snd (processPage two_pages 1 [] export_fails)))) = Pdf (PaperSize 794 1120)"
    by code_simp
  with q have "fst (last (trace w2)) = Pdf (PaperSize 794 1120)" by simp
  with body_restored_or_attempt_aborted [of two_pages 1 "[]" export_fails 2, THEN conjunct2,
      THEN conjunct2, THEN conjunct2, THEN conjunct1] q
  have 3: "body w2 = PageOnly (body export_fails) 1" by blast
  have r: "fst (processPage two_pages 1 [] restore_fails) = Inl (Error ''Target closed'')"
    "last (trace (snd (processPage two_pages 1 [] restore_fails)))
       = (RestoreBody, Some ''Target closed'')"
    by code_simp+
  then obtain w3 where
    q3: "processPage two_pages 1 [] restore_fails = (Inl (Error ''Target closed''), w3)"
    by (cases "processPage two_pages 1 [] restore_fails") auto
  with r(2) have "fst (last (trace w3)) = RestoreBody" by simp
  with body_restored_or_attempt_aborted [of two_pages 1 "[]" restore_fails 2, THEN conjunct2,
      THEN conjunct2, THEN conjunct2, THEN conjunct2, THEN conjunct1] q3
  have 4: "body w3 = PageOnly (body restore_fails) 1" by blast
  define W0 where "W0 = failing_at 12 ''Target closed''"
  define R where "R = two_pages\<lparr>data := (data two_pages)\<lparr>layout := [[[''A'', ''B'', ''C'', ''D''], [''E'', ''F'']]]\<rparr>\<rparr>"
  define W1 where "W1 = snd (io_then getBrowser (io_then newPage (route_localhost local_service)) W0)"
  define W2 where "W2 = snd (load_artboard ''http://host.docker.internal:3000'' R W1)"
  define W3 where "W3 = snd (processPage R 1 [] W2)"
  have "fst (io_then getBrowser (io_then newPage (route_localhost local_service)) W0)
          = Inr ''http://host.docker.internal:3000''"
    unfolding W0_def by code_simp
  then have o: "io_then getBrowser (io_then newPage (route_localhost local_service)) W0
          = (Inr ''http://host.docker.internal:3000'', W1)"
    unfolding W1_def by (simp add: prod_eq_iff)
  have m: "merge_layout two_pages None = Inr R"
    unfolding R_def by code_simp
  have "fst (load_artboard ''http://host.docker.internal:3000'' R W1) = Inr ()"
    unfolding W1_def W0_def R_def by code_simp
  then have l: "load_artboard ''http://host.docker.internal:3000'' R W1 = (Inr (), W2)"
    unfolding W2_def by (simp add: prod_eq_iff)
  have "fst (processPage R 1 [] W2) = Inl (Error ''Target closed'')"
    unfolding W2_def W1_def W0_def R_def by code_simp
  then have pp: "processPage R 1 [] W2 = (Inl (Error ''Target closed''), W3)"
    unfolding W3_def by (simp add: prod_eq_iff)
  from body_restored_or_attempt_aborted [of R 1 "[]" W2 1, THEN conjunct2,
      THEN conjunct2, THEN conjunct2, THEN conjunct2, THEN conjunct2, THEN conjunct2] o m l pp
  have "generateResume local_service two_pages None W0
          = (Inl (InternalServerError ResumePrinterError (message (Error ''Target closed''))), R,
             W3\<lparr>logged := logged W3 @ [LogError (Error ''Target closed'')]\<rparr>)"
    by blast
  then have 5: "fst (generateResume local_service two_pages None (failing_at 12 ''Target closed''))
       = Inl (InternalServerError ''ResumePrinterError'' ''Target closed'')"
    by (simp add: W0_def ResumePrinterError_def)
  from 1 2 3 4 5 p q q3 r f show ?thesis by simp
qed

text \<open>
  The claim as it is written fails: when the export of a page fails, the body is
  not restored. It stays the clone of that page, and the attempt ends. The same
  holds when the export succeeds and the restoring call fails.
\<close>

theorem body_left_isolated:
  "fst (generateResume local_service two_pages None (failing_at 11 ''Protocol error''))
     = Inl (InternalServerError ''ResumePrinterError'' ''Protocol error'')
   \<and> last (trace (snd (snd (generateResume local_service two_pages None (failing_at 11 ''Protocol error'')))))
       = (Pdf (PaperSize 794 1120), Some ''Protocol error'')
   \<and> body (snd (snd (generateResume local_service two_pages None (failing_at 11 ''Protocol error''))))
       = PageOnly (Rendered [[[''A'', ''B'', ''C'', ''D''], [''E'', ''F'']]]) 1
   \<and> fst (process_pages two_pages 1 2 [] export_fails) = Inl (Error ''Protocol error'')
   \<and> body (snd (process_pages two_pages 1 2 [] export_fails))
       = PageOnly (Rendered (layout (data two_pages))) 1
   \<and> map fst (trace (snd (process_pages two_pages 1 2 [] export_fails)))
       = [QuerySelector 1, ScrollWidth, IsolatePage, MeasureHeight, Pdf (PaperSize 794 1120)]
   \<and> fst (generateResume local_service two_pages None (failing_at 12 ''Target closed''))
     = Inl (InternalServerError ''ResumePrinterError'' ''Target closed'')
   \<and> map fst (trace (snd (snd (generateResume local_service two_pages None (failing_at 12 ''Target closed'')))))
       = [Connect, NewPage, SetRequestInterception,
          Goto ''http://host.docker.internal:3000/artboard/preview'',
          SetItem (data (fst (snd (generateResume local_service two_pages None (failing_at 12 ''Target closed''))))),
          Reload, WaitForSelector 1,
          QuerySelector 1, ScrollWidth, IsolatePage, MeasureHeight, Pdf (PaperSize 794 1120), RestoreBody]
   \<and> body (snd (snd (generateResume local_service two_pages None (failing_at 12 ''Target closed''))))
       = PageOnly (Rendered [[[''A'', ''B'', ''C'', ''D''], [''E'', ''F'']]]) 1"
  by code_simp

section \<open>Closing the session\<close>

text \<open>
  Claim C3 does not hold of the code. An attempt that fails after the session was
  acquired (here the wait for the first page times out, or the navigation of the
  preview does) makes no call to close the tab and none to disconnect: the calls
  it made end with the one that failed.
\<close>

theorem session_left_open:
  "fst (generateResume local_service two_pages (Some A4) (failing_at 6 ''TimeoutError''))
     = Inl (InternalServerError ''ResumePrinterError'' ''TimeoutError'')
   \<and> map fst (trace (snd (snd (generateResume local_service two_pages (Some A4) (failing_at 6 ''TimeoutError'')))))
       = [Connect, NewPage, SetRequestInterception,
          Goto ''http://host.docker.internal:3000/artboard/preview'', SetItem (data two_pages),
          Reload, WaitForSelector 1]
   \<and> fst (generatePreview local_service two_pages (failing_at 5 ''TimeoutError''))
       = Inl (Error ''TimeoutError'')
   \<and> map fst (trace (snd (generatePreview local_service two_pages (failing_at 5 ''TimeoutError''))))
       = [Connect, NewPage, SetRequestInterception, EvaluateOnNewDocument (data two_pages),
          SetViewport 794 1123, Goto ''http://host.docker.internal:3000/artboard/preview'']"
  by code_simp

section \<open>Counting attempts and retries\<close>


























section \<open>The waiting times of the policy\<close>




















section \<open>The retry policy\<close>




end
